theory Spec2Isabelle
  imports Complex_Main "HOL-Library.Multiset"
begin

section \<open>Embedding of the YouTube analyzer (src/ai_analytics/youtube\_analyzer.py)\<close>

text \<open>
  Conventions of the embedding.
  \<^item> Python \<open>int\<close> is \<open>int\<close>. Python \<open>float\<close> is a type parameter \<open>'f\<close> whose operations
    are a parameter too (see the subsection on numbers), so that the rounding of IEEE
    doubles is neither modelled away nor fixed.
  \<^item> A raise of the source is a value \<open>Inl e\<close> of a sum type.
  \<^item> A dictionary lookup \<open>d.get(k, default)\<close> on a key that may be missing is an
    \<open>option\<close> field with the default written at the place of use.
  \<^item> Logging and \<open>time.sleep\<close> have no effect on the returned values and are left out.
\<close>

datatype py_error = ZeroDivisionError | IndexError | ValueError | OtherError

subsection \<open>Credential pools: \<open>_rotate_youtube_key\<close>, \<open>_rotate_groq_key\<close>\<close>

text \<open>Python list indexing \<open>xs[i]\<close>: in range from the front, in range from the back, or a raise.\<close>

definition py_index :: "'a list \<Rightarrow> int \<Rightarrow> py_error + 'a" where
  "py_index xs i =
     (if 0 \<le> i \<and> i < int (length xs) then Inr (xs ! nat i)
      else if i < 0 \<and> - int (length xs) \<le> i then Inr (xs ! nat (int (length xs) + i))
      else Inl IndexError)"

text \<open>Python \<open>a % b\<close> on integers; for \<open>b > 0\<close> it agrees with \<open>mod\<close> on \<open>int\<close>.\<close>

definition py_mod :: "int \<Rightarrow> int \<Rightarrow> py_error + int" where
  "py_mod a b = (if b = 0 then Inl ZeroDivisionError else Inr (a mod b))"

definition rotate_youtube_key :: "string list \<Rightarrow> int \<Rightarrow> py_error + (string \<times> int)" where
  "rotate_youtube_key youtube_keys current_key_index =
     (case (if current_key_index = - 1 then Inr 0
            else py_mod (current_key_index + 1) (int (length youtube_keys))) of
        Inl e \<Rightarrow> Inl e
      | Inr next_index \<Rightarrow>
          (case py_index youtube_keys next_index of
             Inl e \<Rightarrow> Inl e
           | Inr k \<Rightarrow> Inr (k, next_index)))"

definition rotate_groq_key :: "string list \<Rightarrow> int \<Rightarrow> py_error + (string option \<times> int)" where
  "rotate_groq_key groq_keys current_key_index =
     (case py_mod (current_key_index + 1) (int (length groq_keys)) of
        Inl e \<Rightarrow> Inl e
      | Inr next_index \<Rightarrow>
          if next_index = 0 \<and> current_key_index \<noteq> - 1 then Inr (None, - 1)
          else (case py_index groq_keys next_index of
                  Inl e \<Rightarrow> Inl e
                | Inr k \<Rightarrow> Inr (Some k, next_index)))"

text \<open>The cursor after \<open>n\<close> successive rotations, each fed the index the previous one returned.\<close>

fun youtube_rotations :: "string list \<Rightarrow> nat \<Rightarrow> int \<Rightarrow> py_error + int" where
  "youtube_rotations ks 0 i = Inr i"
| "youtube_rotations ks (Suc n) i =
     (case rotate_youtube_key ks i of
        Inl e \<Rightarrow> Inl e
      | Inr (k, j) \<Rightarrow> youtube_rotations ks n j)"

fun groq_rotations :: "string list \<Rightarrow> nat \<Rightarrow> int \<Rightarrow> py_error + int" where
  "groq_rotations ks 0 i = Inr i"
| "groq_rotations ks (Suc n) i =
     (case rotate_groq_key ks i of
        Inl e \<Rightarrow> Inl e
      | Inr (k, j) \<Rightarrow> groq_rotations ks n j)"


subsection \<open>Duration tokens: \<open>parse_duration\<close>\<close>

text \<open>
  \<open>re.match(r'PT(?:(\d+)H)?(?:(\d+)M)?(?:(\d+)S)?', duration)\<close> matches at the start of
  the string only and does not require the match to reach its end. After the literal
  \<open>PT\<close> each of the three groups is optional and greedy, and everything after a group
  is optional too, so the matcher never has to give up a group it could take: a group
  is taken exactly when a non-empty run of digits is directly followed by its letter.
  \<open>match_component\<close> returns the captured digits and the remaining input. Characters are
  bytes here; the non-ASCII decimal digits that Python's \<open>\d\<close> also accepts are outside
  the model.
\<close>

definition is_digit :: "char \<Rightarrow> bool" where
  "is_digit c = (c \<in> set ''0123456789'')"

definition digit_value :: "char \<Rightarrow> nat" where
  "digit_value c = of_char c - of_char CHR ''0''"

definition py_int :: "string \<Rightarrow> nat" where
  "py_int ds = foldl (\<lambda>acc c. 10 * acc + digit_value c) 0 ds"

definition match_component :: "char \<Rightarrow> string \<Rightarrow> string option \<times> string" where
  "match_component unit s =
     (let ds = takeWhile is_digit s; rest = dropWhile is_digit s
      in case rest of
           [] \<Rightarrow> (None, s)
         | c # rest' \<Rightarrow> if ds \<noteq> [] \<and> c = unit then (Some ds, rest') else (None, s))"

definition group_value :: "string option \<Rightarrow> nat" where
  "group_value g = (case g of None \<Rightarrow> 0 | Some ds \<Rightarrow> if ds = [] then 0 else py_int ds)"

definition parse_duration :: "string \<Rightarrow> nat" where
  "parse_duration duration =
     (case duration of
        p # t # s0 \<Rightarrow>
          if p = CHR ''P'' \<and> t = CHR ''T'' then
            (let (g1, s1) = match_component CHR ''H'' s0;
                 (g2, s2) = match_component CHR ''M'' s1;
                 (g3, s3) = match_component CHR ''S'' s2;
                 hours = group_value g1;
                 minutes = group_value g2;
                 seconds = group_value g3
             in hours * 3600 + minutes * 60 + seconds)
          else 0
      | _ \<Rightarrow> 0)"


text \<open>The tokens of the form \<open>PT#H#M#S\<close>: each component is absent or a non-empty digit
  string followed by its letter.\<close>

fun duration_component :: "string option \<Rightarrow> char \<Rightarrow> string" where
  "duration_component None u = []"
| "duration_component (Some ds) u = ds @ [u]"

definition duration_token :: "string option \<Rightarrow> string option \<Rightarrow> string option \<Rightarrow> string" where
  "duration_token h m s =
     ''PT'' @ duration_component h CHR ''H'' @ duration_component m CHR ''M''
            @ duration_component s CHR ''S''"

fun digits_ok :: "string option \<Rightarrow> bool" where
  "digits_ok None = True"
| "digits_ok (Some ds) = (ds \<noteq> [] \<and> list_all is_digit ds)"


text \<open>
  What may follow the components of a token. \<open>component_ahead u s\<close> says that \<open>s\<close> begins
  with a component of unit \<open>u\<close>, a non-empty run of digits directly followed by \<open>u\<close>.
  \<open>trailing_ok h m s rest\<close> says that \<open>rest\<close> does not continue the token \<open>PT h m s\<close>: it
  begins with no component that the pattern could still take after the ones present.
\<close>

definition component_ahead :: "char \<Rightarrow> string \<Rightarrow> bool" where
  "component_ahead unit s =
     (takeWhile is_digit s \<noteq> []
      \<and> (case dropWhile is_digit s of [] \<Rightarrow> False | c # _ \<Rightarrow> c = unit))"

definition trailing_ok ::
    "string option \<Rightarrow> string option \<Rightarrow> string option \<Rightarrow> string \<Rightarrow> bool" where
  "trailing_ok h m s rest =
     ((s = None \<longrightarrow> \<not> component_ahead CHR ''S'' rest)
      \<and> (m = None \<and> s = None \<longrightarrow> \<not> component_ahead CHR ''M'' rest)
      \<and> (h = None \<and> m = None \<and> s = None \<longrightarrow> \<not> component_ahead CHR ''H'' rest))"


subsection \<open>Numbers: Python \<open>int\<close> and \<open>float\<close>\<close>

text \<open>
  A Python number is an integer or a float. The floats are the values of a type \<open>'f\<close>
  that is left open, and the floating-point arithmetic of the interpreter and of numpy
  is a parameter of the embedding, a record of operations on \<open>'f\<close>: nothing is assumed
  about rounding, infinities or NaN unless a theorem says so, hence a theorem stated for
  every such record holds for the IEEE doubles the program runs on. \<open>np.mean\<close> and
  \<open>np.std\<close> (population standard deviation) are library operations of that record, with
  numpy's own order of summation. \<open>f_literal m e\<close> is the float that the decimal literal
  \<open>m / 10 ^ e\<close> denotes (\<open>0.8\<close> is \<open>f_literal 8 1\<close>). \<open>f_trunc\<close> is \<open>int(x)\<close> and \<open>f_round_int\<close> is
  \<open>round(x)\<close>, both of which raise on an infinity or a NaN (\<open>None\<close>); \<open>f_round\<close> is
  \<open>round(x, n)\<close>. Comparisons are those of the floats: \<open>x > y\<close> of the source is
  \<open>f_lt y x\<close>.
\<close>

datatype 'f py_num = PyInt int | PyFloat 'f

record 'f float_ops =
  f_of_int :: "int \<Rightarrow> 'f"
  f_add :: "'f \<Rightarrow> 'f \<Rightarrow> 'f"
  f_sub :: "'f \<Rightarrow> 'f \<Rightarrow> 'f"
  f_mul :: "'f \<Rightarrow> 'f \<Rightarrow> 'f"
  f_div :: "'f \<Rightarrow> 'f \<Rightarrow> 'f"
  f_lt :: "'f \<Rightarrow> 'f \<Rightarrow> bool"
  f_le :: "'f \<Rightarrow> 'f \<Rightarrow> bool"
  f_eq :: "'f \<Rightarrow> 'f \<Rightarrow> bool"
  f_literal :: "int \<Rightarrow> nat \<Rightarrow> 'f"
  f_round :: "'f \<Rightarrow> nat \<Rightarrow> 'f"
  f_round_int :: "'f \<Rightarrow> int option"
  f_trunc :: "'f \<Rightarrow> int option"
  np_mean :: "'f list \<Rightarrow> 'f"
  np_std :: "'f list \<Rightarrow> 'f"

definition as_float :: "'f float_ops \<Rightarrow> 'f py_num \<Rightarrow> 'f" where
  "as_float ops x = (case x of PyInt i \<Rightarrow> f_of_int ops i | PyFloat v \<Rightarrow> v)"

text \<open>Comparison and arithmetic of two numbers: exact on two integers, in floats otherwise.\<close>

fun py_lt :: "'f float_ops \<Rightarrow> 'f py_num \<Rightarrow> 'f py_num \<Rightarrow> bool" where
  "py_lt ops (PyInt i) (PyInt j) = (i < j)"
| "py_lt ops (PyInt i) (PyFloat y) = f_lt ops (f_of_int ops i) y"
| "py_lt ops (PyFloat x) (PyInt j) = f_lt ops x (f_of_int ops j)"
| "py_lt ops (PyFloat x) (PyFloat y) = f_lt ops x y"

fun py_le :: "'f float_ops \<Rightarrow> 'f py_num \<Rightarrow> 'f py_num \<Rightarrow> bool" where
  "py_le ops (PyInt i) (PyInt j) = (i \<le> j)"
| "py_le ops (PyInt i) (PyFloat y) = f_le ops (f_of_int ops i) y"
| "py_le ops (PyFloat x) (PyInt j) = f_le ops x (f_of_int ops j)"
| "py_le ops (PyFloat x) (PyFloat y) = f_le ops x y"

fun py_eq :: "'f float_ops \<Rightarrow> 'f py_num \<Rightarrow> 'f py_num \<Rightarrow> bool" where
  "py_eq ops (PyInt i) (PyInt j) = (i = j)"
| "py_eq ops (PyInt i) (PyFloat y) = f_eq ops (f_of_int ops i) y"
| "py_eq ops (PyFloat x) (PyInt j) = f_eq ops x (f_of_int ops j)"
| "py_eq ops (PyFloat x) (PyFloat y) = f_eq ops x y"


fun py_sub :: "'f float_ops \<Rightarrow> 'f py_num \<Rightarrow> 'f py_num \<Rightarrow> 'f py_num" where
  "py_sub ops (PyInt i) (PyInt j) = PyInt (i - j)"
| "py_sub ops (PyInt i) (PyFloat y) = PyFloat (f_sub ops (f_of_int ops i) y)"
| "py_sub ops (PyFloat x) (PyInt j) = PyFloat (f_sub ops x (f_of_int ops j))"
| "py_sub ops (PyFloat x) (PyFloat y) = PyFloat (f_sub ops x y)"

fun py_mul :: "'f float_ops \<Rightarrow> 'f py_num \<Rightarrow> 'f py_num \<Rightarrow> 'f py_num" where
  "py_mul ops (PyInt i) (PyInt j) = PyInt (i * j)"
| "py_mul ops (PyInt i) (PyFloat y) = PyFloat (f_mul ops (f_of_int ops i) y)"
| "py_mul ops (PyFloat x) (PyInt j) = PyFloat (f_mul ops x (f_of_int ops j))"
| "py_mul ops (PyFloat x) (PyFloat y) = PyFloat (f_mul ops x y)"

text \<open>
  True division \<open>a / b\<close> always yields a float. Every division of the source that is
  modelled here has a float divisor or tests its divisor first, so the
  \<open>ZeroDivisionError\<close> of an integer zero divisor has no branch.
\<close>

definition py_truediv :: "'f float_ops \<Rightarrow> 'f py_num \<Rightarrow> 'f py_num \<Rightarrow> 'f py_num" where
  "py_truediv ops a b = PyFloat (f_div ops (as_float ops a) (as_float ops b))"

text \<open>
  The builtins \<open>max(a, b)\<close> and \<open>min(a, b)\<close> keep their first argument unless the second
  is strictly greater, respectively smaller; \<open>round(x, n)\<close> and \<open>round(x)\<close> leave an
  integer as it is.
\<close>

definition py_max :: "'f float_ops \<Rightarrow> 'f py_num \<Rightarrow> 'f py_num \<Rightarrow> 'f py_num" where
  "py_max ops a b = (if py_lt ops a b then b else a)"

definition py_min :: "'f float_ops \<Rightarrow> 'f py_num \<Rightarrow> 'f py_num \<Rightarrow> 'f py_num" where
  "py_min ops a b = (if py_lt ops b a then b else a)"


definition py_round :: "'f float_ops \<Rightarrow> 'f py_num \<Rightarrow> nat \<Rightarrow> 'f py_num" where
  "py_round ops x ndigits =
     (case x of PyInt i \<Rightarrow> PyInt i | PyFloat v \<Rightarrow> PyFloat (f_round ops v ndigits))"

text \<open>
  What IEEE doubles guarantee on integers up to \<open>2 ^ 53\<close>, all of which they represent:
  comparisons are those of the integers; a difference, a product or a quotient that is
  again such an integer is computed without rounding (a zero result is only asked for
  where its sign is positive); the mean of integers whose absolute values sum to at most
  \<open>2 ^ 53\<close> is exact when it is an integer, every partial sum being an integer in range;
  the standard deviation of equal integers is 0; rounding to \<open>n\<close> decimals leaves an
  integer unchanged. This is the only assumption on the arithmetic that any theorem below
  makes, and it is made only where a theorem states a numeric value.
\<close>

definition integer_exact :: "'f float_ops \<Rightarrow> bool" where
  "integer_exact ops \<longleftrightarrow>
     (\<forall>a b. \<bar>a\<bar> \<le> 9007199254740992 \<and> \<bar>b\<bar> \<le> 9007199254740992 \<longrightarrow>
        f_lt ops (f_of_int ops a) (f_of_int ops b) = (a < b)
        \<and> f_le ops (f_of_int ops a) (f_of_int ops b) = (a \<le> b)
        \<and> f_eq ops (f_of_int ops a) (f_of_int ops b) = (a = b))
     \<and> (\<forall>a b. \<bar>a\<bar> \<le> 9007199254740992 \<and> \<bar>b\<bar> \<le> 9007199254740992
          \<and> \<bar>a - b\<bar> \<le> 9007199254740992 \<longrightarrow>
        f_sub ops (f_of_int ops a) (f_of_int ops b) = f_of_int ops (a - b))
     \<and> (\<forall>a b. \<bar>a\<bar> \<le> 9007199254740992 \<and> \<bar>b\<bar> \<le> 9007199254740992
          \<and> \<bar>a * b\<bar> \<le> 9007199254740992 \<and> (a * b = 0 \<longrightarrow> 0 \<le> a \<and> 0 \<le> b) \<longrightarrow>
        f_mul ops (f_of_int ops a) (f_of_int ops b) = f_of_int ops (a * b))
     \<and> (\<forall>q b. b \<noteq> 0 \<and> \<bar>b\<bar> \<le> 9007199254740992 \<and> \<bar>q * b\<bar> \<le> 9007199254740992
          \<and> (q = 0 \<longrightarrow> 0 < b) \<longrightarrow>
        f_div ops (f_of_int ops (q * b)) (f_of_int ops b) = f_of_int ops q)
     \<and> (\<forall>xs m. xs \<noteq> [] \<and> sum_list (map abs xs) \<le> 9007199254740992
          \<and> sum_list xs = m * int (length xs) \<longrightarrow>
        np_mean ops (map (f_of_int ops) xs) = f_of_int ops m)
     \<and> (\<forall>n v. 0 < n \<and> int n * \<bar>v\<bar> \<le> 9007199254740992 \<longrightarrow>
        np_std ops (replicate n (f_of_int ops v)) = f_of_int ops 0)
     \<and> (\<forall>a n. \<bar>a\<bar> * 10 ^ n \<le> 9007199254740992 \<longrightarrow>
        f_round ops (f_of_int ops a) n = f_of_int ops a)"

text \<open>
  Exact arithmetic on the reals, the instance at which the theorems are evaluated. It is
  used only at inputs on which every intermediate value is an integer below \<open>2 ^ 53\<close> or
  a dyadic fraction, where doubles compute the same values. \<open>round\<close> rounds to the nearest
  value, a tie to the even neighbour.
\<close>

definition round_half_even :: "real \<Rightarrow> int" where
  "round_half_even x =
     (let f = \<lfloor>x\<rfloor>; d = x - of_int f
      in if d < 1 / 2 then f else if 1 / 2 < d then f + 1
         else if even f then f else f + 1)"

definition exact_round :: "real \<Rightarrow> nat \<Rightarrow> real" where
  "exact_round x ndigits = of_int (round_half_even (x * 10 ^ ndigits)) / 10 ^ ndigits"

definition exact_mean :: "real list \<Rightarrow> real" where
  "exact_mean xs = sum_list xs / real (length xs)"

definition exact_std :: "real list \<Rightarrow> real" where
  "exact_std xs = sqrt (exact_mean (map (\<lambda>x. (x - exact_mean xs)\<^sup>2) xs))"

definition exact_ops :: "real float_ops" where
  "exact_ops =
     \<lparr>f_of_int = real_of_int, f_add = (+), f_sub = (-), f_mul = (*), f_div = (/),
      f_lt = (<), f_le = (\<le>), f_eq = (=),
      f_literal = (\<lambda>m e. real_of_int m / 10 ^ e), f_round = exact_round,
      f_round_int = (\<lambda>x. Some (round_half_even x)),
      f_trunc = (\<lambda>x. Some (if 0 \<le> x then \<lfloor>x\<rfloor> else \<lceil>x\<rceil>)),
      np_mean = exact_mean, np_std = exact_std\<rparr>"


subsection \<open>Trend classification: \<open>analyze_performance_trend_enhanced\<close>\<close>

definition analyze_performance_trend_enhanced :: "'f float_ops \<Rightarrow> 'f list \<Rightarrow> string" where
  "analyze_performance_trend_enhanced ops performances =
     (if performances = [] \<or> length performances < 5 then ''Insufficient Data''
      else
        let recent_performances = take (min 10 (length performances)) performances in
        if length recent_performances < 5 then ''Insufficient Data''
        else if length recent_performances \<ge> 5 then
          (let half_point = length recent_performances div 2;
               first_half = drop half_point recent_performances;
               second_half = take half_point recent_performances;
               first_avg = (if first_half \<noteq> [] then PyFloat (np_mean ops first_half)
                            else PyInt 0);
               second_avg = (if second_half \<noteq> [] then PyFloat (np_mean ops second_half)
                             else PyInt 0)
           in if py_eq ops first_avg (PyInt 0) then ''Stable''
              else
                let percentage_change =
                      py_mul ops (py_truediv ops (py_sub ops second_avg first_avg) first_avg)
                        (PyInt 100)
                in
                if py_lt ops (PyInt 100) percentage_change then ''Explosive Growth''
                else if py_lt ops (PyInt 50) percentage_change then ''Rapid Growth''
                else if py_lt ops (PyInt 20) percentage_change then ''Growing''
                else if py_lt ops (PyInt 5) percentage_change then ''Slow Growth''
                else if py_lt ops (PyInt (- 20)) percentage_change then ''Stable''
                else if py_lt ops (PyInt (- 50)) percentage_change then ''Declining''
                else ''Rapid Decline'')
        else ''Stable'')"







subsection \<open>Consistency score: \<open>calculate_consistency\<close>\<close>

text \<open>
  The operations of the \<open>try\<close> block are numpy's, which do not raise on floats, so its
  \<open>except\<close> branch (returning 65) is never taken. The constant results are integers, the
  computed one is a float unless the clamp replaces it by one of its integer bounds.
\<close>

definition calculate_consistency :: "'f float_ops \<Rightarrow> 'f list \<Rightarrow> 'f py_num" where
  "calculate_consistency ops vals =
     (if vals = [] \<or> length vals < 2 then PyInt 75
      else if length vals \<ge> 3 then
        (let mean_val = np_mean ops vals in
         if f_eq ops mean_val (f_of_int ops 0) then PyInt 65
         else
           let std_dev = np_std ops vals;
               cv = f_mul ops (f_div ops std_dev mean_val) (f_of_int ops 100);
               consistency =
                 (if f_lt ops cv (f_of_int ops 50)
                  then f_sub ops (f_of_int ops 85) (f_div ops cv (f_of_int ops 2))
                  else if f_lt ops cv (f_of_int ops 100)
                  then f_sub ops (f_of_int ops 70) (f_div ops cv (f_of_int ops 4))
                  else f_sub ops (f_of_int ops 40) (f_div ops cv (f_of_int ops 10)))
           in py_max ops (PyInt 20) (py_min ops (PyFloat consistency) (PyInt 95)))
      else PyInt 70)"

text \<open>
  The reading of the specification: the default below two values, otherwise the clamped
  piecewise function of the coefficient of variation.
\<close>

definition coefficient_of_variation :: "'f float_ops \<Rightarrow> 'f list \<Rightarrow> 'f" where
  "coefficient_of_variation ops vals =
     f_mul ops (f_div ops (np_std ops vals) (np_mean ops vals)) (f_of_int ops 100)"

definition consistency_of_cv :: "'f float_ops \<Rightarrow> 'f \<Rightarrow> 'f" where
  "consistency_of_cv ops cv =
     (if f_lt ops cv (f_of_int ops 50)
      then f_sub ops (f_of_int ops 85) (f_div ops cv (f_of_int ops 2))
      else if f_lt ops cv (f_of_int ops 100)
      then f_sub ops (f_of_int ops 70) (f_div ops cv (f_of_int ops 4))
      else f_sub ops (f_of_int ops 40) (f_div ops cv (f_of_int ops 10)))"

definition clamp_20_95 :: "'f float_ops \<Rightarrow> 'f \<Rightarrow> 'f py_num" where
  "clamp_20_95 ops c = py_max ops (PyInt 20) (py_min ops (PyFloat c) (PyInt 95))"

definition consistency_as_claimed :: "'f float_ops \<Rightarrow> 'f list \<Rightarrow> 'f py_num" where
  "consistency_as_claimed ops vals =
     (if length vals < 2 then PyInt 75
      else clamp_20_95 ops (consistency_of_cv ops (coefficient_of_variation ops vals)))"

text \<open>
  A result within the clamp: the integer 20, the integer 95, or a float that is above 20
  and not above 95.
\<close>

definition within_20_95 :: "'f float_ops \<Rightarrow> 'f py_num \<Rightarrow> bool" where
  "within_20_95 ops r =
     (case r of
        PyInt i \<Rightarrow> 20 \<le> i \<and> i \<le> 95
      | PyFloat c \<Rightarrow> f_lt ops (f_of_int ops 20) c \<and> \<not> f_lt ops (f_of_int ops 95) c)"


subsection \<open>Engagement aggregation: \<open>calculate_comprehensive_engagement\<close>\<close>

text \<open>
  A video item, with the fields the analyzer reads. The statistics are the integers
  that \<open>int(stats.get(k, 0))\<close> yields (\<open>None\<close> for a missing key); \<open>published_at\<close> is the
  publication time in seconds. The argument \<open>videos_data\<close> is \<open>None\<close> when the dictionary
  is empty or has no \<open>video_stats\<close> entry, and otherwise carries its \<open>items\<close> list.
  A quotient of two integers is the float quotient of their conversions.
\<close>

record video =
  vid_id :: "string option"
  vid_thumbnail_url :: "string option"
  snippet_title :: "string option"
  snippet_thumbnail_url :: "string option"
  viewCount :: "int option"
  likeCount :: "int option"
  commentCount :: "int option"
  content_duration :: "string option"
  published_at :: "int option"

record 'f engagement_metrics =
  total_recent_views :: int
  total_recent_likes :: int
  total_recent_comments :: int
  total_engagement :: int
  avg_engagement_rate :: "'f py_num"
  engagement_consistency :: "'f py_num"
  engagement_health :: string
  avg_views_per_video :: "'f py_num"
  avg_likes_per_video :: "'f py_num"
  avg_comments_per_video :: "'f py_num"
  views_std_dev :: "'f py_num"
  performance_consistency :: "'f py_num"
  top_performing_video_views :: int
  top_performing_video_likes :: int
  top_performing_video_title :: string
  top_performing_video_thumbnail :: "string option"
  top_performing_video_id :: "string option"
  videos_analyzed :: nat

definition stat :: "int option \<Rightarrow> int" where
  "stat c = (case c of None \<Rightarrow> 0 | Some n \<Rightarrow> n)"

definition py_or :: "string option \<Rightarrow> string option \<Rightarrow> string option" where
  "py_or a b = (case a of None \<Rightarrow> b | Some s \<Rightarrow> if s = [] then b else Some s)"

definition get_default_engagement_metrics :: "'f engagement_metrics" where
  "get_default_engagement_metrics =
     \<lparr>total_recent_views = 0, total_recent_likes = 0, total_recent_comments = 0,
      total_engagement = 0, avg_engagement_rate = PyInt 0, engagement_consistency = PyInt 0,
      engagement_health = ''Unknown'', avg_views_per_video = PyInt 0,
      avg_likes_per_video = PyInt 0, avg_comments_per_video = PyInt 0,
      views_std_dev = PyInt 0, performance_consistency = PyInt 0,
      top_performing_video_views = 0, top_performing_video_likes = 0,
      top_performing_video_title = [], top_performing_video_thumbnail = None,
      top_performing_video_id = None, videos_analyzed = 0\<rparr>"

definition assess_engagement_health_enhanced ::
    "'f float_ops \<Rightarrow> 'f py_num \<Rightarrow> nat \<Rightarrow> string" where
  "assess_engagement_health_enhanced ops engagement_rate video_count =
     (if py_le ops (PyInt 8) engagement_rate then ''Excellent''
      else if py_le ops (PyInt 5) engagement_rate then ''Good''
      else if py_le ops (PyInt 3) engagement_rate then ''Average''
      else ''Needs Work'')"

definition engagement_rate_of :: "'f float_ops \<Rightarrow> video \<Rightarrow> 'f" where
  "engagement_rate_of ops v =
     f_mul ops
       (f_div ops (f_of_int ops (stat (likeCount v) + stat (commentCount v)))
          (f_of_int ops (stat (viewCount v))))
       (f_of_int ops 100)"

definition int_quotient :: "'f float_ops \<Rightarrow> int \<Rightarrow> nat \<Rightarrow> 'f" where
  "int_quotient ops amount n = f_div ops (f_of_int ops amount) (f_of_int ops (int n))"

definition calculate_comprehensive_engagement ::
    "'f float_ops \<Rightarrow> video list option \<Rightarrow> 'f engagement_metrics" where
  "calculate_comprehensive_engagement ops videos_data =
     (case videos_data of
        None \<Rightarrow> get_default_engagement_metrics
      | Some items \<Rightarrow>
          (case items of
             [] \<Rightarrow> get_default_engagement_metrics
           | top_video # _ \<Rightarrow>
               let view_counts = map (\<lambda>v. stat (viewCount v)) items;
                   like_counts = map (\<lambda>v. stat (likeCount v)) items;
                   comment_counts = map (\<lambda>v. stat (commentCount v)) items;
                   total_views = sum_list view_counts;
                   total_likes = sum_list like_counts;
                   total_comments = sum_list comment_counts;
                   engagement_rates =
                     map (engagement_rate_of ops) (filter (\<lambda>v. stat (viewCount v) > 0) items);
                   num_videos = length items;
                   avg_engagement =
                     (if engagement_rates \<noteq> [] then PyFloat (np_mean ops engagement_rates)
                      else PyInt 0);
                   health = assess_engagement_health_enhanced ops avg_engagement num_videos;
                   ec0 = (if engagement_rates \<noteq> []
                          then calculate_consistency ops engagement_rates else PyInt 50);
                   pc0 = (if view_counts \<noteq> []
                          then calculate_consistency ops (map (f_of_int ops) view_counts)
                          else PyInt 50);
                   ec = (if num_videos < 3 then py_max ops ec0 (PyInt 60) else ec0);
                   pc = (if num_videos < 3 then py_max ops pc0 (PyInt 60) else pc0)
               in \<lparr>total_recent_views = total_views,
                   total_recent_likes = total_likes,
                   total_recent_comments = total_comments,
                   total_engagement = total_likes + total_comments,
                   avg_engagement_rate = py_round ops avg_engagement 2,
                   engagement_consistency = ec,
                   engagement_health = health,
                   avg_views_per_video =
                     (if num_videos > 0
                      then PyFloat (f_round ops (int_quotient ops total_views num_videos) 1)
                      else PyInt 0),
                   avg_likes_per_video =
                     (if num_videos > 0
                      then PyFloat (f_round ops (int_quotient ops total_likes num_videos) 1)
                      else PyInt 0),
                   avg_comments_per_video =
                     (if num_videos > 0
                      then PyFloat (f_round ops (int_quotient ops total_comments num_videos) 1)
                      else PyInt 0),
                   views_std_dev =
                     py_round ops
                       (if view_counts \<noteq> []
                        then PyFloat (np_std ops (map (f_of_int ops) view_counts))
                        else PyInt 0) 1,
                   performance_consistency = pc,
                   top_performing_video_views = stat (viewCount top_video),
                   top_performing_video_likes = stat (likeCount top_video),
                   top_performing_video_title =
                     (case snippet_title top_video of None \<Rightarrow> [] | Some t \<Rightarrow> t),
                   top_performing_video_thumbnail =
                     py_or (vid_thumbnail_url top_video) (snippet_thumbnail_url top_video),
                   top_performing_video_id = vid_id top_video,
                   videos_analyzed = num_videos\<rparr>))"

subsection \<open>Performance metrics: \<open>calculate_performance_metrics_enhanced\<close>\<close>

record 'f performance_metrics =
  avg_duration_seconds :: "'f py_num"
  avg_performance_score :: "'f py_num"
  optimal_video_length :: string
  duration_consistency :: "'f py_num"
  performance_trend :: string
  estimated_retention_rate :: "'f py_num"
  content_velocity_score :: "'f py_num"

definition get_default_performance_metrics :: "'f performance_metrics" where
  "get_default_performance_metrics =
     \<lparr>avg_duration_seconds = PyInt 0, avg_performance_score = PyInt 0,
      optimal_video_length = ''Unknown'', duration_consistency = PyInt 0,
      performance_trend = ''Unknown'', estimated_retention_rate = PyInt 0,
      content_velocity_score = PyInt 0\<rparr>"

text \<open>
  \<open>max(performances)\<close> scans from the first element and moves on to a strictly greater
  one. The weight of a video is its performance over the best one, and its duration is
  repeated \<open>int(weight * 10)\<close> times; \<open>int\<close> raises on a weight that is not finite, and a
  negative count repeats nothing.
\<close>

definition py_max_list :: "'f float_ops \<Rightarrow> 'f list \<Rightarrow> 'f" where
  "py_max_list ops xs = foldl (\<lambda>m x. if f_lt ops m x then x else m) (hd xs) (tl xs)"

definition weight_count :: "'f float_ops \<Rightarrow> 'f \<Rightarrow> 'f \<Rightarrow> int option" where
  "weight_count ops best performance =
     (if f_lt ops (f_of_int ops 0) best
      then f_trunc ops (f_mul ops (f_div ops performance best) (f_of_int ops 10))
      else Some (1 * 10))"

definition determine_optimal_length_enhanced ::
    "'f float_ops \<Rightarrow> int list \<Rightarrow> 'f list \<Rightarrow> py_error + string" where
  "determine_optimal_length_enhanced ops durations performances =
     (if durations = [] \<or> performances = [] then Inr ''Medium (8-15 minutes)''
      else
        case those (map (weight_count ops (py_max_list ops performances))
                      (take (length durations) performances)) of
          None \<Rightarrow> Inl ValueError
        | Some counts \<Rightarrow>
            let weighted_durations =
                  concat (map (\<lambda>(duration, k). replicate (nat k) duration)
                            (zip durations counts));
                avg_duration =
                  (if weighted_durations = [] then np_mean ops (map (f_of_int ops) durations)
                   else np_mean ops (map (f_of_int ops) weighted_durations))
            in Inr (if f_lt ops avg_duration (f_of_int ops 180) then ''Short (under 3 minutes)''
                    else if f_lt ops avg_duration (f_of_int ops 480)
                    then ''Medium-Short (3-8 minutes)''
                    else if f_lt ops avg_duration (f_of_int ops 900)
                    then ''Medium (8-15 minutes)''
                    else if f_lt ops avg_duration (f_of_int ops 1800)
                    then ''Long (15-30 minutes)''
                    else ''Very Long (30+ minutes)''))"

text \<open>
  \<open>calculate_content_velocity\<close> wraps its body in a bare \<open>except\<close> that returns 0: a video
  without a publication time ends there.
\<close>

definition calculate_content_velocity :: "'f float_ops \<Rightarrow> video list \<Rightarrow> 'f py_num" where
  "calculate_content_velocity ops videos =
     (if length videos < 2 then PyInt 0
      else if \<exists>v \<in> set videos. published_at v = None then PyInt 0
      else
        let dates = sort (map (\<lambda>v. the (published_at v)) videos);
            total_days = (last dates - hd dates) div 86400
        in if total_days = 0 then PyInt 100
           else
             let videos_per_week =
                   f_mul ops (f_div ops (f_of_int ops (int (length videos)))
                                (f_of_int ops total_days))
                     (f_of_int ops 7);
                 velocity =
                   py_min ops (PyFloat (f_mul ops videos_per_week (f_of_int ops 10))) (PyInt 100)
             in py_round ops velocity 1)"

definition engagement_score_of :: "'f float_ops \<Rightarrow> video \<Rightarrow> 'f" where
  "engagement_score_of ops v =
     f_div ops (f_of_int ops (stat (likeCount v) + stat (commentCount v)))
       (f_of_int ops (stat (viewCount v)))"

definition performance_score_of :: "'f float_ops \<Rightarrow> video \<Rightarrow> 'f" where
  "performance_score_of ops v =
     f_mul ops (f_of_int ops (stat (viewCount v)))
       (f_add ops (f_of_int ops 1) (engagement_score_of ops v))"

definition retention_estimate_of :: "'f float_ops \<Rightarrow> video \<Rightarrow> 'f py_num" where
  "retention_estimate_of ops v =
     py_min ops (PyFloat (f_mul ops (engagement_score_of ops v) (f_of_int ops 200))) (PyInt 95)"

definition calculate_performance_metrics_enhanced ::
    "'f float_ops \<Rightarrow> video list option \<Rightarrow> 'f engagement_metrics
       \<Rightarrow> py_error + 'f performance_metrics" where
  "calculate_performance_metrics_enhanced ops videos_data engagement =
     (case videos_data of
        None \<Rightarrow> Inr get_default_performance_metrics
      | Some items \<Rightarrow>
          if items = [] then Inr get_default_performance_metrics
          else
            let durations =
                  map (\<lambda>v. int (parse_duration
                                   (case content_duration v of None \<Rightarrow> ''PT0S'' | Some d \<Rightarrow> d)))
                      items;
                viewed = filter (\<lambda>v. stat (viewCount v) > 0) items;
                performance_scores = map (performance_score_of ops) viewed;
                retention_estimates = map (retention_estimate_of ops) viewed;
                avg_duration =
                  (if durations \<noteq> [] then PyFloat (np_mean ops (map (f_of_int ops) durations))
                   else PyInt 0);
                avg_performance =
                  (if performance_scores \<noteq> [] then PyFloat (np_mean ops performance_scores)
                   else PyInt 0);
                avg_retention =
                  (if retention_estimates \<noteq> []
                   then PyFloat (np_mean ops (map (as_float ops) retention_estimates))
                   else PyInt 0)
            in case determine_optimal_length_enhanced ops durations performance_scores of
                 Inl e \<Rightarrow> Inl e
               | Inr optimal \<Rightarrow>
                   Inr \<lparr>avg_duration_seconds = py_round ops avg_duration 1,
                        avg_performance_score = py_round ops avg_performance 1,
                        optimal_video_length = optimal,
                        duration_consistency =
                          calculate_consistency ops (map (f_of_int ops) durations),
                        performance_trend =
                          analyze_performance_trend_enhanced ops performance_scores,
                        estimated_retention_rate = py_round ops avg_retention 1,
                        content_velocity_score = calculate_content_velocity ops items\<rparr>)"

text \<open>The wrapper catches every exception of the computation and returns the defaults.\<close>

definition get_performance_metrics_safe ::
    "'f float_ops \<Rightarrow> video list option \<Rightarrow> 'f engagement_metrics \<Rightarrow> 'f performance_metrics" where
  "get_performance_metrics_safe ops videos_data engagement =
     (case calculate_performance_metrics_enhanced ops videos_data engagement of
        Inl e \<Rightarrow> get_default_performance_metrics
      | Inr metrics \<Rightarrow> metrics)"

text \<open>
  \<open>get_channel_videos_safe\<close> orders the items by view count, largest first, before the
  aggregation reads them (\<open>sorted(..., key = views, reverse = True)\<close>).
\<close>

definition sort_by_views :: "video list \<Rightarrow> video list" where
  "sort_by_views items = sort_key (\<lambda>v. - stat (viewCount v)) items"

definition items_of :: "video list option \<Rightarrow> video list" where
  "items_of videos_data = (case videos_data of None \<Rightarrow> [] | Some items \<Rightarrow> items)"

subsection \<open>Insights and recommendations\<close>

text \<open>
  An insight or recommendation entry, with its \<open>type\<close>, \<open>title\<close> and \<open>priority\<close>; the
  description, the confidence and the action steps are text that no test of the source
  reads. The text-generation provider is asked once per key: \<open>Insights_found\<close> is a reply
  of status 200 whose JSON body carries a list under \<open>insights\<close> (an absent key counts
  as the empty list), \<open>No_insights\<close> is every other outcome of the request, a status
  other than 200, a body without JSON, a parse error or a network error, all of which
  the loop answers with \<open>continue\<close>. The list of replies has one entry per configured
  key, in order.
\<close>

record insight =
  insight_type :: string
  title :: string
  priority :: string

datatype provider_reply = Insights_found "insight list" | No_insights

fun generate_groq_insights_admin :: "provider_reply list \<Rightarrow> insight list" where
  "generate_groq_insights_admin [] = []"
| "generate_groq_insights_admin (Insights_found insights # more_keys) =
     (if length insights \<ge> 3 then insights else generate_groq_insights_admin more_keys)"
| "generate_groq_insights_admin (No_insights # more_keys) =
     generate_groq_insights_admin more_keys"

text \<open>
  The rule-based generators read a few numbers from their dictionaries with
  \<open>d.get(k, 0)\<close>; those numbers are the arguments here.
\<close>

definition generate_enhanced_rule_based_insights ::
    "'f float_ops \<Rightarrow> 'f py_num \<Rightarrow> 'f py_num \<Rightarrow> 'f py_num \<Rightarrow> string \<Rightarrow> insight list" where
  "generate_enhanced_rule_based_insights ops subscribers top_video_views engagement_rate
       optimal_length =
     (let viral_ratio = py_truediv ops top_video_views (py_max ops subscribers (PyInt 1))
      in [if py_lt ops (PyInt 50) viral_ratio
          then \<lparr>insight_type = ''growth_opportunity'',
                title = ''EXPLOSIVE VIRAL POTENTIAL DETECTED'', priority = ''high''\<rparr>
          else \<lparr>insight_type = ''growth_opportunity'',
                title = ''Build Audience Foundation'', priority = ''high''\<rparr>,
          if py_lt ops engagement_rate (PyInt 3)
          then \<lparr>insight_type = ''engagement_boost'',
                title = ''Improve Audience Engagement'', priority = ''high''\<rparr>
          else \<lparr>insight_type = ''engagement_boost'',
                title = ''Maintain Strong Engagement'', priority = ''medium''\<rparr>,
          \<lparr>insight_type = ''content_strategy'',
           title = optimal_length @ '' Content Excellence'', priority = ''high''\<rparr>])"

definition generate_ai_insights_enhanced ::
    "'f float_ops \<Rightarrow> provider_reply list \<Rightarrow> 'f py_num \<Rightarrow> 'f py_num \<Rightarrow> 'f py_num \<Rightarrow> string
       \<Rightarrow> insight list" where
  "generate_ai_insights_enhanced ops replies subscribers top_video_views engagement_rate
       optimal_length =
     (let groq_insights = generate_groq_insights_admin replies
      in if groq_insights \<noteq> [] \<and> length groq_insights \<ge> 3 then groq_insights
         else generate_enhanced_rule_based_insights ops subscribers top_video_views
                engagement_rate optimal_length)"

definition general_recommendation :: insight where
  "general_recommendation =
     \<lparr>insight_type = ''general'', title = ''Continue Strategic Growth'',
      priority = ''medium''\<rparr>"

definition generate_recommendations_enhanced ::
    "'f float_ops \<Rightarrow> 'f py_num \<Rightarrow> 'f py_num \<Rightarrow> 'f py_num \<Rightarrow> insight list" where
  "generate_recommendations_enhanced ops subscribers health_score content_diversity =
     (let recommendations =
            (if py_lt ops subscribers (PyInt 1000)
             then [\<lparr>insight_type = ''foundation'', title = ''Build Audience Foundation'',
                    priority = ''high''\<rparr>] else [])
            @ (if py_lt ops content_diversity (PyInt 60)
               then [\<lparr>insight_type = ''content_strategy'',
                      title = ''Diversify Content Approach'', priority = ''medium''\<rparr>] else [])
            @ (if py_lt ops health_score (PyInt 60)
               then [\<lparr>insight_type = ''optimization'', title = ''Improve Core Metrics'',
                      priority = ''high''\<rparr>] else []);
          padded =
            recommendations @ replicate (3 - length recommendations) general_recommendation
      in take 3 padded)"

text \<open>
  The reading of the specification for the insights: the provider's list cut to three
  entries, and the generic entries when it has fewer than three.
\<close>

definition insights_as_claimed :: "insight list \<Rightarrow> insight list \<Rightarrow> insight list" where
  "insights_as_claimed provided generic =
     (if length provided \<ge> 3 then take 3 provided else generic)"

subsection \<open>Composite metrics: \<open>calculate_ai_enhanced_metrics\<close>\<close>

text \<open>
  The dictionaries the composite computation reads, with the fields it uses. The result
  field \<open>engagement_health\<close> of the source is named \<open>engagement_health_scaled\<close> here, the
  engagement record holding a field of the same name. A sum \<open>a + b + c + d\<close> associates
  to the left. The quotient of two integers is the quotient of their floats, which is what
  \<open>/\<close> computes on integers below \<open>2 ^ 53\<close>. The four scores are rounded with \<open>round(x)\<close>,
  which raises on an infinity (\<open>OverflowError\<close>) or a NaN (\<open>ValueError\<close>): \<open>rounded_scores\<close>
  is \<open>None\<close> then and the computation returns no record but the error, which the model
  does not tell apart and names \<open>ValueError\<close>.
\<close>

record channel_data =
  channel_title :: string
  subscribers :: int
  total_views :: int
  total_videos :: int


record 'f ai_enhanced_metrics =
  channel_health_score :: int
  content_quality_score :: int
  growth_potential :: string
  performance_tier :: string
  viral_ratio :: "'f py_num"
  engagement_health_scaled :: string
  audience_loyalty_score :: int
  algorithm_favorability :: int














section \<open>Credential pool rotation\<close>

lemma py_index_nonneg:
  "0 \<le> j \<Longrightarrow> j < int (length xs) \<Longrightarrow> py_index xs j = Inr (xs ! nat j)"
  by (simp add: py_index_def)

lemma rotate_youtube_key_valid:
  assumes "0 \<le> i" "i < int (length ks)"
  shows "rotate_youtube_key ks i =
           Inr (ks ! nat ((i + 1) mod int (length ks)), (i + 1) mod int (length ks))"
proof -
  have n: "int (length ks) > 0" using assms by linarith
  have r: "0 \<le> (i + 1) mod int (length ks)" "(i + 1) mod int (length ks) < int (length ks)"
    using n by simp_all
  have "i \<noteq> - 1" using assms by linarith
  then show ?thesis
    using n by (simp add: rotate_youtube_key_def py_mod_def py_index_nonneg [OF r])
qed

lemma youtube_rotations_valid:
  "0 \<le> i \<Longrightarrow> i < int (length ks) \<Longrightarrow>
     youtube_rotations ks n i = Inr ((i + int n) mod int (length ks))"
proof (induction n arbitrary: i)
  case 0
  then show ?case by simp
next
  case (Suc n)
  have n: "int (length ks) > 0" using Suc.prems by linarith
  let ?j = "(i + 1) mod int (length ks)"
  have j: "0 \<le> ?j" "?j < int (length ks)" using n by simp_all
  have "youtube_rotations ks (Suc n) i = youtube_rotations ks n ?j"
    using Suc.prems by (simp add: rotate_youtube_key_valid)
  also have "\<dots> = Inr ((?j + int n) mod int (length ks))"
    using Suc.IH [OF j] .
  also have "(?j + int n) mod int (length ks) = (i + int (Suc n)) mod int (length ks)"
    by (simp add: mod_simps algebra_simps)
  finally show ?case .
qed

lemma rotate_groq_key_step:
  assumes "- 1 \<le> i" "i < int (length ks)" "ks \<noteq> []"
  shows "\<exists>k. rotate_groq_key ks i =
           Inr (k, (i + 2) mod (int (length ks) + 1) - 1)"
proof -
  let ?N = "int (length ks)"
  have n: "?N > 0" using assms(3) by simp
  show ?thesis
  proof (cases "i = ?N - 1")
    case True
    then have "(i + 1) mod ?N = 0" by simp
    moreover have "i \<noteq> - 1" using True n by linarith
    moreover have "i + 2 = ?N + 1" using True by simp
    then have "(i + 2) mod (?N + 1) = 0" by (metis mod_self)
    ultimately show ?thesis
      using n by (simp add: rotate_groq_key_def py_mod_def)
  next
    case False
    then have lt: "i + 1 < ?N" using assms by linarith
    have ge: "0 \<le> i + 1" using assms by linarith
    have m: "(i + 1) mod ?N = i + 1" using lt ge by simp
    have m2: "(i + 2) mod (?N + 1) = i + 2" using lt ge by simp
    have i1: "i + 1 = 0 \<longleftrightarrow> i = - 1" by linarith
    show ?thesis
      using n m m2 i1 by (simp add: rotate_groq_key_def py_mod_def py_index_nonneg [OF ge lt])
  qed
qed

lemma rotate_groq_key_below_last:
  assumes "0 \<le> i" "i < int (length ks) - 1"
  shows "rotate_groq_key ks i = Inr (Some (ks ! nat (i + 1)), i + 1)"
proof -
  have ge: "0 \<le> i + 1" and lt: "i + 1 < int (length ks)" using assms by linarith+
  have m: "(i + 1) mod int (length ks) = i + 1" using ge lt by simp
  have z: "i + 1 \<noteq> 0" using assms(1) by linarith
  have n: "int (length ks) \<noteq> 0" using lt ge by linarith
  show ?thesis
    using m z n by (simp add: rotate_groq_key_def py_mod_def py_index_nonneg [OF ge lt])
qed

lemma groq_rotations_valid:
  "- 1 \<le> i \<Longrightarrow> i < int (length ks) \<Longrightarrow> ks \<noteq> [] \<Longrightarrow>
     groq_rotations ks n i = Inr ((i + 1 + int n) mod (int (length ks) + 1) - 1)"
proof (induction n arbitrary: i)
  case 0
  then show ?case by simp
next
  case (Suc n)
  let ?M = "int (length ks) + 1"
  let ?j = "(i + 2) mod ?M - 1"
  have M: "?M > 0" by simp
  obtain k where k: "rotate_groq_key ks i = Inr (k, ?j)"
    using rotate_groq_key_step [OF Suc.prems] by blast
  have j: "- 1 \<le> ?j" "?j < int (length ks)"
    using M pos_mod_bound [of ?M "i + 2"] pos_mod_sign [of ?M "i + 2"] by linarith+
  have "groq_rotations ks (Suc n) i = groq_rotations ks n ?j"
    using k by simp
  also have "\<dots> = Inr ((?j + 1 + int n) mod ?M - 1)"
    using Suc.IH [OF j Suc.prems(3)] .
  also have "(?j + 1 + int n) mod ?M = (i + 1 + int (Suc n)) mod ?M"
  proof -
    have "(?j + 1 + int n) mod ?M = ((i + 2) mod ?M + int n) mod ?M" by simp
    also have "\<dots> = (i + 2 + int n) mod ?M" by (simp add: mod_add_left_eq)
    finally show ?thesis by (simp add: add.assoc)
  qed
  finally show ?case .
qed

text \<open>
  Claim C10, as stated, fails for the text-generation pool: on the pool \<open>[a, b]\<close>,
  advancing past the last key (index 1) does not wrap to the first key but returns
  \<open>(None, -1)\<close>, and two rotations from index 0 end at \<open>-1\<close>, not at 0.
\<close>

theorem C10_groq_rotation_counterexample:
  "rotate_groq_key [''a'', ''b''] 1 = Inr (None, - 1)
   \<and> groq_rotations [''a'', ''b''] 2 0 = Inr (- 1)
   \<and> groq_rotations [''a'', ''b''] 2 0 \<noteq> Inr 0"
  by (simp add: rotate_groq_key_def py_mod_def py_index_def numeral_2_eq_2)

text \<open>
  Claim C10, amended. For a non-empty pool of size \<open>N\<close> and an index \<open>0 \<le> i < N\<close>:
  the video-data pool is circular (the successor of \<open>i\<close> is \<open>(i + 1) mod N\<close>, so
  the last key is followed by the first) and \<open>N\<close> rotations return the cursor to \<open>i\<close>.
  The text-generation pool advances the same way below the last key (for \<open>i < N - 1\<close>
  the rotation hands out key \<open>i + 1\<close> and moves the cursor there), but advancing past
  the last key yields the exhaustion signal \<open>(None, -1)\<close>; rotating from \<open>-1\<close> yields
  the first key, so its cursor returns to \<open>i\<close> after \<open>N + 1\<close> rotations.
\<close>

theorem C10_rotation_amended:
  assumes "ks \<noteq> []" "0 \<le> i" "i < int (length ks)"
  shows "rotate_youtube_key ks i =
           Inr (ks ! nat ((i + 1) mod int (length ks)), (i + 1) mod int (length ks))
       \<and> rotate_youtube_key ks (int (length ks) - 1) = Inr (ks ! 0, 0)
       \<and> youtube_rotations ks (length ks) i = Inr i
       \<and> (i < int (length ks) - 1 \<longrightarrow>
            rotate_groq_key ks i = Inr (Some (ks ! nat (i + 1)), i + 1))
       \<and> rotate_groq_key ks (int (length ks) - 1) = Inr (None, - 1)
       \<and> rotate_groq_key ks (- 1) = Inr (Some (ks ! 0), 0)
       \<and> groq_rotations ks (Suc (length ks)) i = Inr i"
proof -
  let ?N = "int (length ks)"
  have n: "?N > 0" using assms(1) by simp
  have y1: "rotate_youtube_key ks i = Inr (ks ! nat ((i + 1) mod ?N), (i + 1) mod ?N)"
    using assms(2,3) by (rule rotate_youtube_key_valid)
  have "rotate_youtube_key ks (?N - 1) =
          Inr (ks ! nat ((?N - 1 + 1) mod ?N), (?N - 1 + 1) mod ?N)"
    using n by (intro rotate_youtube_key_valid) simp_all
  then have y2: "rotate_youtube_key ks (?N - 1) = Inr (ks ! 0, 0)" by simp
  have "youtube_rotations ks (length ks) i = Inr ((i + ?N) mod ?N)"
    using assms by (simp add: youtube_rotations_valid)
  then have y3: "youtube_rotations ks (length ks) i = Inr i"
    using assms by simp
  have g0: "i < ?N - 1 \<longrightarrow> rotate_groq_key ks i = Inr (Some (ks ! nat (i + 1)), i + 1)"
    using assms(2) by (simp add: rotate_groq_key_below_last)
  have "?N - 1 \<noteq> - 1" using n by linarith
  then have g1: "rotate_groq_key ks (?N - 1) = Inr (None, - 1)"
    using n by (simp add: rotate_groq_key_def py_mod_def)
  have g2: "rotate_groq_key ks (- 1) = Inr (Some (ks ! 0), 0)"
    using n by (simp add: rotate_groq_key_def py_mod_def py_index_def)
  have "groq_rotations ks (Suc (length ks)) i =
          Inr ((i + 1 + int (Suc (length ks))) mod (?N + 1) - 1)"
    using assms by (intro groq_rotations_valid) simp_all
  also have "(i + 1 + int (Suc (length ks))) mod (?N + 1) = (i + 1 + (?N + 1)) mod (?N + 1)"
    by simp
  also have "\<dots> = (i + 1) mod (?N + 1)" by (simp only: mod_add_self2)
  also have "\<dots> = i + 1" using assms by simp
  finally have g3: "groq_rotations ks (Suc (length ks)) i = Inr i" by simp
  show ?thesis using y1 y2 y3 g0 g1 g2 g3 by blast
qed

theorem C10_rotation_amended_witness:
  "rotate_youtube_key [''k0'', ''k1'', ''k2''] 1 = Inr (''k2'', 2)
   \<and> rotate_youtube_key [''k0'', ''k1'', ''k2''] 2 = Inr (''k0'', 0)
   \<and> youtube_rotations [''k0'', ''k1'', ''k2''] 3 1 = Inr 1
   \<and> rotate_groq_key [''k0'', ''k1'', ''k2''] 1 = Inr (Some ''k2'', 2)
   \<and> rotate_groq_key [''k0'', ''k1'', ''k2''] 2 = Inr (None, - 1)
   \<and> rotate_groq_key [''k0'', ''k1'', ''k2''] (- 1) = Inr (Some ''k0'', 0)
   \<and> groq_rotations [''k0'', ''k1'', ''k2''] 4 1 = Inr 1"
  using C10_rotation_amended [of "[''k0'', ''k1'', ''k2'']" 1]
  by (simp del: youtube_rotations.simps groq_rotations.simps add: numeral_eq_Suc)

section \<open>Duration parsing\<close>

lemma match_component_present:
  assumes "ds \<noteq> []" "list_all is_digit ds" "\<not> is_digit u"
  shows "match_component u (ds @ u # rest) = (Some ds, rest)"
proof -
  have a: "\<forall>c\<in>set ds. is_digit c" using assms(2) by (simp add: list_all_iff)
  have t: "takeWhile is_digit (ds @ u # rest) = ds"
    using a assms(3) by (simp add: takeWhile_append2)
  have d: "dropWhile is_digit (ds @ u # rest) = u # rest"
    using a assms(3) by (simp add: dropWhile_append2)
  show ?thesis using assms(1) by (simp add: match_component_def t d)
qed

lemma match_component_other:
  assumes "list_all is_digit ds" "\<not> is_digit v" "v \<noteq> u"
  shows "match_component u (ds @ v # rest) = (None, ds @ v # rest)"
proof -
  have a: "\<forall>c\<in>set ds. is_digit c" using assms(1) by (simp add: list_all_iff)
  have d: "dropWhile is_digit (ds @ v # rest) = v # rest"
    using a assms(2) by (simp add: dropWhile_append2)
  show ?thesis using assms(3) by (simp add: match_component_def d)
qed

lemma match_component_empty: "match_component u [] = (None, [])"
  by (simp add: match_component_def)

lemma unit_not_digit:
  "\<not> is_digit CHR ''H''" "\<not> is_digit CHR ''M''" "\<not> is_digit CHR ''S''"
  by (simp_all add: is_digit_def)

lemma match_seconds:
  "digits_ok s \<Longrightarrow>
     match_component CHR ''S'' (duration_component s CHR ''S'') = (s, [])"
  by (cases s) (simp_all add: match_component_empty match_component_present unit_not_digit)

lemma skip_before_seconds:
  assumes "digits_ok s" "u \<noteq> CHR ''S''"
  shows "match_component u (duration_component s CHR ''S'')
           = (None, duration_component s CHR ''S'')"
proof (cases s)
  case None
  then show ?thesis by (simp add: match_component_empty)
next
  case (Some ds)
  then have "match_component u (ds @ CHR ''S'' # []) = (None, ds @ CHR ''S'' # [])"
    using assms by (intro match_component_other) (simp_all add: unit_not_digit)
  then show ?thesis using Some by simp
qed

lemma match_minutes:
  assumes "digits_ok m" "digits_ok s"
  shows "match_component CHR ''M''
           (duration_component m CHR ''M'' @ duration_component s CHR ''S'')
         = (m, duration_component s CHR ''S'')"
proof (cases m)
  case None
  then show ?thesis using skip_before_seconds [OF assms(2), of "CHR ''M''"] by simp
next
  case (Some ds)
  then show ?thesis
    using assms(1) match_component_present [of ds "CHR ''M''" "duration_component s CHR ''S''"]
    by (simp add: unit_not_digit)
qed

lemma skip_before_minutes:
  assumes "digits_ok m" "digits_ok s" "u \<noteq> CHR ''M''" "u \<noteq> CHR ''S''"
  shows "match_component u (duration_component m CHR ''M'' @ duration_component s CHR ''S'')
           = (None, duration_component m CHR ''M'' @ duration_component s CHR ''S'')"
proof (cases m)
  case None
  then show ?thesis using skip_before_seconds [OF assms(2,4)] by simp
next
  case (Some ds)
  then show ?thesis
    using assms(1,3)
      match_component_other [of ds "CHR ''M''" u "duration_component s CHR ''S''"]
    by (simp add: unit_not_digit)
qed

lemma match_hours:
  assumes "digits_ok h" "digits_ok m" "digits_ok s"
  shows "match_component CHR ''H''
           (duration_component h CHR ''H'' @ duration_component m CHR ''M''
              @ duration_component s CHR ''S'')
         = (h, duration_component m CHR ''M'' @ duration_component s CHR ''S'')"
proof (cases h)
  case None
  then show ?thesis using skip_before_minutes [OF assms(2,3), of "CHR ''H''"] by simp
next
  case (Some ds)
  then show ?thesis
    using assms(1)
      match_component_present [of ds "CHR ''H''"
        "duration_component m CHR ''M'' @ duration_component s CHR ''S''"]
    by (simp add: unit_not_digit)
qed

lemma match_component_absent:
  assumes "\<not> component_ahead u s"
  shows "match_component u s = (None, s)"
proof (cases "dropWhile is_digit s")
  case Nil
  show ?thesis unfolding match_component_def Let_def Nil by simp
next
  case (Cons c rest')
  have "\<not> (takeWhile is_digit s \<noteq> [] \<and> c = u)"
    using assms unfolding component_ahead_def Cons by simp
  then show ?thesis unfolding match_component_def Let_def Cons by simp
qed

lemma match_component_cases:
  assumes "match_component u s = (g, r)"
  shows "digits_ok g \<and> s = duration_component g u @ r \<and> (g = None \<longrightarrow> \<not> component_ahead u s)"
proof (cases "dropWhile is_digit s")
  case Nil
  have "g = None" "r = s"
    using assms unfolding match_component_def Let_def Nil by simp_all
  moreover have "\<not> component_ahead u s"
    unfolding component_ahead_def Nil by simp
  ultimately show ?thesis by simp
next
  case (Cons c rest')
  show ?thesis
  proof (cases "takeWhile is_digit s \<noteq> [] \<and> c = u")
    case True
    have g: "g = Some (takeWhile is_digit s)" and r: "r = rest'"
      using assms True unfolding match_component_def Let_def Cons by simp_all
    have id: "takeWhile is_digit s @ dropWhile is_digit s = s"
      by (rule takeWhile_dropWhile_id)
    have cu: "c = u" using True by simp
    have e: "duration_component g u @ r = s"
      unfolding g r by (simp add: id [unfolded Cons cu])
    have d: "list_all is_digit (takeWhile is_digit s)"
      unfolding list_all_iff by (meson set_takeWhileD)
    have "digits_ok g" using g d True by simp
    moreover have "s = duration_component g u @ r" by (rule e [symmetric])
    moreover have "g = None \<longrightarrow> \<not> component_ahead u s" unfolding g by simp
    ultimately show ?thesis by blast
  next
    case False
    have "g = None" "r = s"
      using assms False unfolding match_component_def Let_def Cons by auto
    moreover have "\<not> component_ahead u s"
      using False unfolding component_ahead_def Cons by simp
    ultimately show ?thesis by simp
  qed
qed

lemma take_seconds:
  assumes "digits_ok s" "s = None \<longrightarrow> \<not> component_ahead CHR ''S'' rest"
  shows "match_component CHR ''S'' (duration_component s CHR ''S'' @ rest) = (s, rest)"
proof (cases s)
  case None
  then show ?thesis using assms by (simp add: match_component_absent)
next
  case (Some ds)
  then show ?thesis
    using assms(1) match_component_present [of ds "CHR ''S''" rest]
    by (simp add: unit_not_digit)
qed

lemma skip_seconds:
  assumes "digits_ok s" "u \<noteq> CHR ''S''" "s = None \<longrightarrow> \<not> component_ahead u rest"
  shows "match_component u (duration_component s CHR ''S'' @ rest)
           = (None, duration_component s CHR ''S'' @ rest)"
proof (cases s)
  case None
  then show ?thesis using assms by (simp add: match_component_absent)
next
  case (Some ds)
  then show ?thesis
    using assms(1,2) match_component_other [of ds "CHR ''S''" u rest]
    by (simp add: unit_not_digit)
qed

lemma take_minutes:
  assumes "digits_ok m" "digits_ok s"
    "m = None \<and> s = None \<longrightarrow> \<not> component_ahead CHR ''M'' rest"
  shows "match_component CHR ''M''
           (duration_component m CHR ''M'' @ duration_component s CHR ''S'' @ rest)
         = (m, duration_component s CHR ''S'' @ rest)"
proof (cases m)
  case None
  then show ?thesis
    using skip_seconds [OF assms(2), of "CHR ''M''" rest] assms(3) by simp
next
  case (Some ds)
  then show ?thesis
    using assms(1)
      match_component_present [of ds "CHR ''M''" "duration_component s CHR ''S'' @ rest"]
    by (simp add: unit_not_digit)
qed

lemma skip_minutes:
  assumes "digits_ok m" "digits_ok s" "u \<noteq> CHR ''M''" "u \<noteq> CHR ''S''"
    "m = None \<and> s = None \<longrightarrow> \<not> component_ahead u rest"
  shows "match_component u
           (duration_component m CHR ''M'' @ duration_component s CHR ''S'' @ rest)
         = (None, duration_component m CHR ''M'' @ duration_component s CHR ''S'' @ rest)"
proof (cases m)
  case None
  then show ?thesis
    using skip_seconds [OF assms(2,4), of rest] assms(5) by simp
next
  case (Some ds)
  then show ?thesis
    using assms(1,3)
      match_component_other [of ds "CHR ''M''" u "duration_component s CHR ''S'' @ rest"]
    by (simp add: unit_not_digit)
qed

lemma take_hours:
  assumes "digits_ok h" "digits_ok m" "digits_ok s"
    "h = None \<and> m = None \<and> s = None \<longrightarrow> \<not> component_ahead CHR ''H'' rest"
  shows "match_component CHR ''H''
           (duration_component h CHR ''H'' @ duration_component m CHR ''M''
              @ duration_component s CHR ''S'' @ rest)
         = (h, duration_component m CHR ''M'' @ duration_component s CHR ''S'' @ rest)"
proof (cases h)
  case None
  then show ?thesis
    using skip_minutes [OF assms(2,3), of "CHR ''H''" rest] assms(4) by simp
next
  case (Some ds)
  then show ?thesis
    using assms(1)
      match_component_present [of ds "CHR ''H''"
        "duration_component m CHR ''M'' @ duration_component s CHR ''S'' @ rest"]
    by (simp add: unit_not_digit)
qed

lemma parse_duration_leading:
  assumes "digits_ok h" "digits_ok m" "digits_ok s" "trailing_ok h m s rest"
  shows "parse_duration (duration_token h m s @ rest)
           = group_value h * 3600 + group_value m * 60 + group_value s"
proof -
  have a: "h = None \<and> m = None \<and> s = None \<longrightarrow> \<not> component_ahead CHR ''H'' rest"
    and b: "m = None \<and> s = None \<longrightarrow> \<not> component_ahead CHR ''M'' rest"
    and c: "s = None \<longrightarrow> \<not> component_ahead CHR ''S'' rest"
    using assms(4) by (simp_all add: trailing_ok_def)
  show ?thesis
    by (simp add: parse_duration_def duration_token_def
        take_hours [OF assms(1,2,3) a] take_minutes [OF assms(2,3) b]
        take_seconds [OF assms(3) c])
qed

lemma parse_duration_token:
  assumes "digits_ok h" "digits_ok m" "digits_ok s"
  shows "parse_duration (duration_token h m s)
           = group_value h * 3600 + group_value m * 60 + group_value s"
proof -
  have "trailing_ok h m s []" by (simp add: trailing_ok_def component_ahead_def)
  then show ?thesis using parse_duration_leading [OF assms, of "[]"] by simp
qed

lemma parse_duration_no_prefix:
  "take 2 d \<noteq> ''PT'' \<Longrightarrow> parse_duration d = 0"
  by (auto simp add: parse_duration_def split: list.splits)

lemma parse_duration_no_component:
  assumes "\<not> component_ahead CHR ''H'' rest" "\<not> component_ahead CHR ''M'' rest"
    "\<not> component_ahead CHR ''S'' rest"
  shows "parse_duration (''PT'' @ rest) = 0"
proof -
  have "trailing_ok None None None rest" using assms by (simp add: trailing_ok_def)
  then have "parse_duration (duration_token None None None @ rest)
               = group_value None * 3600 + group_value None * 60 + group_value None"
    by (intro parse_duration_leading) simp_all
  then show ?thesis by (simp add: duration_token_def group_value_def)
qed

lemma prefixed_token_decomposes:
  assumes "take 2 d = ''PT''"
  shows "\<exists>h m s rest. d = duration_token h m s @ rest \<and> digits_ok h \<and> digits_ok m
           \<and> digits_ok s \<and> trailing_ok h m s rest"
proof -
  obtain s0 where d: "d = ''PT'' @ s0"
    using assms by (metis append_take_drop_id)
  obtain g1 s1 where m1: "match_component CHR ''H'' s0 = (g1, s1)" by (meson surj_pair)
  obtain g2 s2 where m2: "match_component CHR ''M'' s1 = (g2, s2)" by (meson surj_pair)
  obtain g3 s3 where m3: "match_component CHR ''S'' s2 = (g3, s3)" by (meson surj_pair)
  note c1 = match_component_cases [OF m1]
  note c2 = match_component_cases [OF m2]
  note c3 = match_component_cases [OF m3]
  have e: "d = duration_token g1 g2 g3 @ s3"
    using d c1 c2 c3 by (simp add: duration_token_def)
  have t3: "g3 = None \<longrightarrow> \<not> component_ahead CHR ''S'' s3"
    using c3 by auto
  have t2: "g2 = None \<and> g3 = None \<longrightarrow> \<not> component_ahead CHR ''M'' s3"
    using c2 c3 by auto
  have t1: "g1 = None \<and> g2 = None \<and> g3 = None \<longrightarrow> \<not> component_ahead CHR ''H'' s3"
    using c1 c2 c3 by auto
  have "trailing_ok g1 g2 g3 s3" using t1 t2 t3 by (simp add: trailing_ok_def)
  then show ?thesis using e c1 c2 c3 by blast
qed

text \<open>
  Claim C9, as stated, fails on malformed tokens that begin with \<open>PT\<close>: the match is a
  prefix match, so \<open>PT5Sgarbage\<close> parses to 5 and \<open>PT3S2M\<close> to 3, not to 0.
\<close>

theorem C9_malformed_counterexample:
  "parse_duration ''PT5Sgarbage'' = 5 \<and> parse_duration ''PT5Sgarbage'' \<noteq> 0
   \<and> parse_duration ''PT3S2M'' = 3"
  by (simp add: parse_duration_def match_component_def group_value_def py_int_def
        digit_value_def is_digit_def)

text \<open>
  Claim C9, amended. Every token of the form \<open>PT#H#M#S\<close>, with any subset of the three
  components, parses to hours * 3600 + minutes * 60 + seconds; in particular
  \<open>PT1H2M3S\<close> parses to 3723 and \<open>PT45S\<close> to 45. Every token that does not begin with
  \<open>PT\<close>, such as \<open>garbage\<close> or the empty token, parses to 0. A token that begins with \<open>PT\<close>
  parses to the total of the well-formed components that directly follow \<open>PT\<close> (hours,
  then minutes, then seconds), and whatever follows them is ignored: every such token
  splits into a token \<open>PT#H#M#S\<close> and a remainder that does not continue it. So a
  malformed token with no leading component, such as \<open>PTgarbage\<close>, \<open>PT5\<close> or \<open>PT5.5S\<close>,
  parses to 0, but \<open>PT5Sgarbage\<close> parses to 5. The parser is a total function on
  strings: it never raises.
\<close>

theorem C9_parse_duration_amended:
  "(digits_ok h \<and> digits_ok m \<and> digits_ok s \<longrightarrow>
      parse_duration (duration_token h m s)
        = group_value h * 3600 + group_value m * 60 + group_value s)
   \<and> (take 2 d \<noteq> ''PT'' \<longrightarrow> parse_duration d = 0)
   \<and> (digits_ok h \<and> digits_ok m \<and> digits_ok s \<and> trailing_ok h m s rest \<longrightarrow>
        parse_duration (duration_token h m s @ rest)
          = group_value h * 3600 + group_value m * 60 + group_value s)
   \<and> (take 2 d = ''PT'' \<longrightarrow>
        (\<exists>h' m' s' rest'. d = duration_token h' m' s' @ rest' \<and> digits_ok h' \<and> digits_ok m'
           \<and> digits_ok s' \<and> trailing_ok h' m' s' rest'))
   \<and> (\<not> component_ahead CHR ''H'' rest \<and> \<not> component_ahead CHR ''M'' rest
        \<and> \<not> component_ahead CHR ''S'' rest \<longrightarrow> parse_duration (''PT'' @ rest) = 0)
   \<and> parse_duration ''PT1H2M3S'' = 3723
   \<and> parse_duration ''PT45S'' = 45
   \<and> parse_duration ''garbage'' = 0
   \<and> parse_duration [] = 0
   \<and> parse_duration ''PTgarbage'' = 0
   \<and> parse_duration ''PT5'' = 0
   \<and> parse_duration ''PT5.5S'' = 0
   \<and> parse_duration ''PT'' = 0"
proof -
  have a: "parse_duration ''PT1H2M3S'' = 3723" "parse_duration ''PT45S'' = 45"
    by (simp_all add: parse_duration_def match_component_def group_value_def py_int_def
          digit_value_def is_digit_def)
  have b: "parse_duration ''garbage'' = 0" "parse_duration [] = 0"
    by (simp_all add: parse_duration_def)
  have c: "parse_duration ''PTgarbage'' = 0" "parse_duration ''PT5'' = 0"
    "parse_duration ''PT5.5S'' = 0" "parse_duration ''PT'' = 0"
    by (simp_all add: parse_duration_def match_component_def group_value_def py_int_def
          digit_value_def is_digit_def)
  show ?thesis
    using a b c parse_duration_token [of h m s] parse_duration_no_prefix [of d]
      parse_duration_leading [of h m s rest] prefixed_token_decomposes [of d]
      parse_duration_no_component [of rest]
    by blast
qed

theorem C9_parse_duration_amended_witness:
  "duration_token None (Some ''10'') (Some ''07'') = ''PT10M07S''
   \<and> parse_duration ''PT10M07S'' = 607
   \<and> parse_duration ''P1DT2H'' = 0
   \<and> parse_duration ''PT10M07Sxyz'' = 607
   \<and> parse_duration ''PTxyz'' = 0"
proof -
  have t: "duration_token None (Some ''10'') (Some ''07'') = ''PT10M07S''"
    by (simp add: duration_token_def)
  have ok: "digits_ok None \<and> digits_ok (Some ''10'') \<and> digits_ok (Some ''07'')"
    by (simp add: is_digit_def)
  have tr: "trailing_ok None (Some ''10'') (Some ''07'') ''xyz''"
    by (simp add: trailing_ok_def)
  have na: "\<not> component_ahead CHR ''H'' ''xyz'' \<and> \<not> component_ahead CHR ''M'' ''xyz''
        \<and> \<not> component_ahead CHR ''S'' ''xyz''"
    by (simp add: component_ahead_def is_digit_def)
  have v: "group_value None * 3600 + group_value (Some ''10'') * 60 + group_value (Some ''07'')
             = 607"
    by (simp add: group_value_def py_int_def digit_value_def)
  have p: "take 2 ''P1DT2H'' \<noteq> ''PT''" by simp
  note inst = C9_parse_duration_amended [of None "Some ''10''" "Some ''07''" "''P1DT2H''" "''xyz''"]
  have w1: "parse_duration (duration_token None (Some ''10'') (Some ''07'')) = 607"
    using inst ok v by simp
  have w2: "parse_duration ''P1DT2H'' = 0"
    using inst p by blast
  have w3: "parse_duration (duration_token None (Some ''10'') (Some ''07'') @ ''xyz'') = 607"
    using inst ok tr v by simp
  have w4: "parse_duration (''PT'' @ ''xyz'') = 0"
    using inst na by blast
  show ?thesis
    using t w1 w2 w3 w4 by simp
qed

section \<open>The exact instance of the arithmetic\<close>

lemma sum_list_real_of_int: "sum_list (map real_of_int xs) = real_of_int (sum_list xs)"
  by (induction xs) simp_all

lemma exact_mean_of_int:
  assumes "xs \<noteq> []" "sum_list xs = m * int (length xs)"
  shows "exact_mean (map real_of_int xs) = real_of_int m"
proof -
  have "real (length xs) \<noteq> 0" using assms(1) by simp
  then show ?thesis
    by (simp add: exact_mean_def sum_list_real_of_int assms(2))
qed

lemma exact_mean_replicate: "0 < n \<Longrightarrow> exact_mean (replicate n v) = v"
  by (simp add: exact_mean_def sum_list_replicate)

lemma exact_std_replicate: "0 < n \<Longrightarrow> exact_std (replicate n v) = 0"
  by (simp add: exact_std_def exact_mean_replicate)

lemma round_half_even_of_int: "round_half_even (real_of_int k) = k"
  by (simp add: round_half_even_def)

lemma exact_round_of_int: "exact_round (real_of_int a) n = real_of_int a"
proof -
  have "real_of_int a * 10 ^ n = real_of_int (a * 10 ^ n)" by simp
  then have "round_half_even (real_of_int a * 10 ^ n) = a * 10 ^ n"
    by (simp only: round_half_even_of_int)
  then show ?thesis by (simp add: exact_round_def)
qed

lemma integer_exact_exact_ops: "integer_exact exact_ops"
  unfolding integer_exact_def
proof (intro conjI allI impI)
  fix a b :: int
  show "f_lt exact_ops (f_of_int exact_ops a) (f_of_int exact_ops b) = (a < b)"
    by (simp add: exact_ops_def)
  show "f_le exact_ops (f_of_int exact_ops a) (f_of_int exact_ops b) = (a \<le> b)"
    by (simp add: exact_ops_def)
  show "f_eq exact_ops (f_of_int exact_ops a) (f_of_int exact_ops b) = (a = b)"
    by (simp add: exact_ops_def)
  show "f_sub exact_ops (f_of_int exact_ops a) (f_of_int exact_ops b)
          = f_of_int exact_ops (a - b)"
    by (simp add: exact_ops_def)
  show "f_mul exact_ops (f_of_int exact_ops a) (f_of_int exact_ops b)
          = f_of_int exact_ops (a * b)"
    by (simp add: exact_ops_def)
next
  fix q b :: int
  assume "b \<noteq> 0 \<and> \<bar>b\<bar> \<le> 9007199254740992 \<and> \<bar>q * b\<bar> \<le> 9007199254740992
            \<and> (q = 0 \<longrightarrow> 0 < b)"
  then show "f_div exact_ops (f_of_int exact_ops (q * b)) (f_of_int exact_ops b)
               = f_of_int exact_ops q"
    by (simp add: exact_ops_def)
next
  fix xs :: "int list" and m :: int
  assume "xs \<noteq> [] \<and> sum_list (map abs xs) \<le> 9007199254740992
            \<and> sum_list xs = m * int (length xs)"
  then show "np_mean exact_ops (map (f_of_int exact_ops) xs) = f_of_int exact_ops m"
    by (simp add: exact_ops_def exact_mean_of_int)
next
  fix n :: nat and v :: int
  assume "0 < n \<and> int n * \<bar>v\<bar> \<le> 9007199254740992"
  then show "np_std exact_ops (replicate n (f_of_int exact_ops v)) = f_of_int exact_ops 0"
    by (simp add: exact_ops_def exact_std_replicate)
next
  fix a :: int and n :: nat
  show "f_round exact_ops (f_of_int exact_ops a) n = f_of_int exact_ops a"
    by (simp add: exact_ops_def exact_round_of_int)
qed

text \<open>The consequences of \<open>integer_exact\<close> that the theorems use, one by one.\<close>

lemma ie_lt:
  assumes "integer_exact ops" "\<bar>a\<bar> \<le> 9007199254740992" "\<bar>b\<bar> \<le> 9007199254740992"
  shows "f_lt ops (f_of_int ops a) (f_of_int ops b) = (a < b)"
  using assms(1) [unfolded integer_exact_def, THEN conjunct1, rule_format, of a b] assms(2,3) by blast

lemma ie_le:
  assumes "integer_exact ops" "\<bar>a\<bar> \<le> 9007199254740992" "\<bar>b\<bar> \<le> 9007199254740992"
  shows "f_le ops (f_of_int ops a) (f_of_int ops b) = (a \<le> b)"
  using assms(1) [unfolded integer_exact_def, THEN conjunct1, rule_format, of a b] assms(2,3) by blast

lemma ie_eq:
  assumes "integer_exact ops" "\<bar>a\<bar> \<le> 9007199254740992" "\<bar>b\<bar> \<le> 9007199254740992"
  shows "f_eq ops (f_of_int ops a) (f_of_int ops b) = (a = b)"
  using assms(1) [unfolded integer_exact_def, THEN conjunct1, rule_format, of a b] assms(2,3) by blast

lemma ie_sub:
  assumes "integer_exact ops" "\<bar>a\<bar> \<le> 9007199254740992" "\<bar>b\<bar> \<le> 9007199254740992" "\<bar>a - b\<bar> \<le> 9007199254740992"
  shows "f_sub ops (f_of_int ops a) (f_of_int ops b) = f_of_int ops (a - b)"
  using assms(1) [unfolded integer_exact_def, THEN conjunct2, THEN conjunct1, rule_format, of a b] assms(2,3,4) by blast

lemma ie_mul:
  assumes "integer_exact ops" "\<bar>a\<bar> \<le> 9007199254740992" "\<bar>b\<bar> \<le> 9007199254740992" "\<bar>a * b\<bar> \<le> 9007199254740992"
    "a * b = 0 \<longrightarrow> 0 \<le> a \<and> 0 \<le> b"
  shows "f_mul ops (f_of_int ops a) (f_of_int ops b) = f_of_int ops (a * b)"
  using assms(1) [unfolded integer_exact_def, THEN conjunct2, THEN conjunct2, THEN conjunct1, rule_format, of a b] assms(2,3,4,5) by blast

lemma ie_div:
  assumes "integer_exact ops" "b \<noteq> 0" "\<bar>b\<bar> \<le> 9007199254740992" "\<bar>q * b\<bar> \<le> 9007199254740992" "q = 0 \<longrightarrow> 0 < b"
  shows "f_div ops (f_of_int ops (q * b)) (f_of_int ops b) = f_of_int ops q"
  using assms(1) [unfolded integer_exact_def, THEN conjunct2, THEN conjunct2, THEN conjunct2, THEN conjunct1, rule_format, of b q] assms(2,3,4,5) by blast

lemma ie_mean:
  assumes "integer_exact ops" "xs \<noteq> []" "sum_list (map abs xs) \<le> 9007199254740992"
    "sum_list xs = m * int (length xs)"
  shows "np_mean ops (map (f_of_int ops) xs) = f_of_int ops m"
  using assms(1) [unfolded integer_exact_def, THEN conjunct2, THEN conjunct2, THEN conjunct2, THEN conjunct2, THEN conjunct1, rule_format, of xs m] assms(2,3,4) by blast

lemma ie_std:
  assumes "integer_exact ops" "0 < n" "int n * \<bar>v\<bar> \<le> 9007199254740992"
  shows "np_std ops (replicate n (f_of_int ops v)) = f_of_int ops 0"
  using assms(1) [unfolded integer_exact_def, THEN conjunct2, THEN conjunct2, THEN conjunct2, THEN conjunct2, THEN conjunct2, THEN conjunct1, rule_format, of n v] assms(2,3) by blast


lemma ie_mean_replicate:
  assumes "integer_exact ops" "0 < n" "int n * \<bar>v\<bar> \<le> 9007199254740992"
  shows "np_mean ops (replicate n (f_of_int ops v)) = f_of_int ops v"
proof -
  have "np_mean ops (map (f_of_int ops) (replicate n v)) = f_of_int ops v"
  proof (rule ie_mean [OF assms(1)])
    show "replicate n v \<noteq> []" using assms(2) by simp
    show "sum_list (map abs (replicate n v)) \<le> 9007199254740992"
      using assms(3) by (simp add: sum_list_replicate)
    show "sum_list (replicate n v) = v * int (length (replicate n v))"
      by (simp add: sum_list_replicate)
  qed
  then show ?thesis by simp
qed

section \<open>Performance trend\<close>












section \<open>Consistency score\<close>

lemma consistency_short: "length vals < 2 \<Longrightarrow> calculate_consistency ops vals = PyInt 75"
  by (simp add: calculate_consistency_def)

lemma consistency_two: "length vals = 2 \<Longrightarrow> calculate_consistency ops vals = PyInt 70"
  by (auto simp add: calculate_consistency_def)

lemma consistency_zero_mean:
  "3 \<le> length vals \<Longrightarrow> f_eq ops (np_mean ops vals) (f_of_int ops 0) \<Longrightarrow>
     calculate_consistency ops vals = PyInt 65"
  by (auto simp add: calculate_consistency_def)

lemma consistency_formula:
  assumes "3 \<le> length vals" "\<not> f_eq ops (np_mean ops vals) (f_of_int ops 0)"
  shows "calculate_consistency ops vals
           = clamp_20_95 ops (consistency_of_cv ops (coefficient_of_variation ops vals))"
proof -
  have "vals \<noteq> []" "\<not> length vals < 2" using assms(1) by auto
  then show ?thesis
    using assms
    by (simp add: calculate_consistency_def consistency_of_cv_def
        coefficient_of_variation_def clamp_20_95_def Let_def)
qed

lemma clamp_within: "within_20_95 ops (clamp_20_95 ops c)"
  by (simp add: clamp_20_95_def py_max_def py_min_def within_20_95_def)

lemma consistency_within: "within_20_95 ops (calculate_consistency ops vals)"
proof -
  consider "length vals < 2" | "length vals = 2"
    | "3 \<le> length vals" "f_eq ops (np_mean ops vals) (f_of_int ops 0)"
    | "3 \<le> length vals" "\<not> f_eq ops (np_mean ops vals) (f_of_int ops 0)"
    by linarith
  then show ?thesis
  proof cases
    case 1
    then show ?thesis by (simp add: consistency_short within_20_95_def)
  next
    case 2
    then show ?thesis by (simp add: consistency_two within_20_95_def)
  next
    case 3
    then show ?thesis by (simp add: consistency_zero_mean within_20_95_def)
  next
    case 4
    then show ?thesis by (simp add: consistency_formula clamp_within)
  qed
qed

lemma consistency_equal_integers:
  assumes ie: "integer_exact ops" and n: "3 \<le> n" and v: "0 < v"
    and b: "int n * v \<le> 9007199254740992"
  shows "calculate_consistency ops (replicate n (f_of_int ops v)) = PyFloat (f_of_int ops 85)"
proof -
  have n0: "0 < n" using n by simp
  have bv: "int n * \<bar>v\<bar> \<le> 9007199254740992" using b v by simp
  have "0 \<le> (int n - 1) * v" using n0 v by simp
  then have "v \<le> int n * v" by (simp add: algebra_simps)
  then have vb: "\<bar>v\<bar> \<le> 9007199254740992" using b v by linarith
  have mean: "np_mean ops (replicate n (f_of_int ops v)) = f_of_int ops v"
    using ie n0 bv by (rule ie_mean_replicate)
  have std: "np_std ops (replicate n (f_of_int ops v)) = f_of_int ops 0"
    using ie n0 bv by (rule ie_std)
  have nz: "\<not> f_eq ops (f_of_int ops v) (f_of_int ops 0)"
    using ie_eq [OF ie vb, of 0] v by simp
  have "f_div ops (f_of_int ops (0 * v)) (f_of_int ops v) = f_of_int ops 0"
    using ie vb v by (intro ie_div) simp_all
  then have q: "f_div ops (f_of_int ops 0) (f_of_int ops v) = f_of_int ops 0" by simp
  have "f_mul ops (f_of_int ops 0) (f_of_int ops 100) = f_of_int ops (0 * 100)"
    using ie by (intro ie_mul) simp_all
  then have p: "f_mul ops (f_of_int ops 0) (f_of_int ops 100) = f_of_int ops 0" by simp
  have cv: "coefficient_of_variation ops (replicate n (f_of_int ops v)) = f_of_int ops 0"
    by (simp add: coefficient_of_variation_def mean std q p)
  have lt: "f_lt ops (f_of_int ops 0) (f_of_int ops 50)"
    using ie_lt [OF ie, of 0 50] by simp
  have "f_div ops (f_of_int ops (0 * 2)) (f_of_int ops 2) = f_of_int ops 0"
    using ie by (intro ie_div) simp_all
  then have h: "f_div ops (f_of_int ops 0) (f_of_int ops 2) = f_of_int ops 0" by simp
  have "f_sub ops (f_of_int ops 85) (f_of_int ops 0) = f_of_int ops (85 - 0)"
    using ie by (intro ie_sub) simp_all
  then have s: "f_sub ops (f_of_int ops 85) (f_of_int ops 0) = f_of_int ops 85" by simp
  have c: "consistency_of_cv ops (f_of_int ops 0) = f_of_int ops 85"
    by (simp add: consistency_of_cv_def lt h s)
  have u: "\<not> f_lt ops (f_of_int ops 95) (f_of_int ops 85)"
    using ie_lt [OF ie, of 95 85] by simp
  have l: "f_lt ops (f_of_int ops 20) (f_of_int ops 85)"
    using ie_lt [OF ie, of 20 85] by simp
  have k: "clamp_20_95 ops (f_of_int ops 85) = PyFloat (f_of_int ops 85)"
    by (simp add: clamp_20_95_def py_max_def py_min_def u l)
  have "3 \<le> length (replicate n (f_of_int ops v))" using n by simp
  moreover have "\<not> f_eq ops (np_mean ops (replicate n (f_of_int ops v))) (f_of_int ops 0)"
    unfolding mean by (rule nz)
  ultimately have "calculate_consistency ops (replicate n (f_of_int ops v))
      = clamp_20_95 ops (consistency_of_cv ops
          (coefficient_of_variation ops (replicate n (f_of_int ops v))))"
    by (rule consistency_formula)
  then show ?thesis unfolding cv c k .
qed

lemma consistency_of_few:
  "length vals < 3 \<Longrightarrow>
     (if vals \<noteq> [] then calculate_consistency ops vals else PyInt 50)
       \<in> {PyInt 50, PyInt 70, PyInt 75}"
proof -
  assume a: "length vals < 3"
  consider "vals = []" | "length vals = 1" | "length vals = 2"
    using a by (cases vals) (auto simp add: less_Suc_eq numeral_3_eq_3)
  then show ?thesis
  proof cases
    case 1
    then show ?thesis by simp
  next
    case 2
    then have "vals \<noteq> []" "length vals < 2" by auto
    then show ?thesis by (simp add: consistency_short)
  next
    case 3
    then have "vals \<noteq> []" by auto
    then show ?thesis using 3 by (simp add: consistency_two)
  qed
qed

lemma floor_at_60:
  "x \<in> {PyInt 50, PyInt 70, PyInt 75} \<Longrightarrow> py_max ops x (PyInt 60) \<in> {PyInt 60, PyInt 70, PyInt 75}"
  by (auto simp add: py_max_def)

lemma engagement_nonempty:
  "calculate_comprehensive_engagement ops (Some (tv # rest)) =
     (let items = tv # rest;
          view_counts = map (\<lambda>v. stat (viewCount v)) items;
          engagement_rates =
            map (engagement_rate_of ops) (filter (\<lambda>v. stat (viewCount v) > 0) items);
          avg_engagement =
            (if engagement_rates \<noteq> [] then PyFloat (np_mean ops engagement_rates)
             else PyInt 0);
          ec0 = (if engagement_rates \<noteq> []
                 then calculate_consistency ops engagement_rates else PyInt 50);
          pc0 = calculate_consistency ops (map (f_of_int ops) view_counts)
      in (calculate_comprehensive_engagement ops (Some (tv # rest)))
           \<lparr>engagement_consistency :=
              (if length items < 3 then py_max ops ec0 (PyInt 60) else ec0),
            performance_consistency :=
              (if length items < 3 then py_max ops pc0 (PyInt 60) else pc0),
            top_performing_video_views := stat (viewCount tv),
            top_performing_video_likes := stat (likeCount tv),
            top_performing_video_title :=
              (case snippet_title tv of None \<Rightarrow> [] | Some t \<Rightarrow> t),
            top_performing_video_thumbnail :=
              py_or (vid_thumbnail_url tv) (snippet_thumbnail_url tv),
            top_performing_video_id := vid_id tv,
            videos_analyzed := Suc (length rest)\<rparr>)"
  by (simp add: calculate_comprehensive_engagement_def Let_def)

lemma small_channel_floor:
  assumes "items \<noteq> []" "length items < 3"
  shows "engagement_consistency (calculate_comprehensive_engagement ops (Some items))
           \<in> {PyInt 60, PyInt 70, PyInt 75}"
    and "performance_consistency (calculate_comprehensive_engagement ops (Some items))
           \<in> {PyInt 70, PyInt 75}"
proof -
  obtain tv rest where i: "items = tv # rest" using assms(1) by (cases items) auto
  let ?rates = "map (engagement_rate_of ops) (filter (\<lambda>v. stat (viewCount v) > 0) items)"
  let ?views = "map (f_of_int ops) (map (\<lambda>v. stat (viewCount v)) items)"
  have "length ?rates \<le> length items" by simp
  then have lr: "length ?rates < 3" using assms(2) by linarith
  have e: "engagement_consistency (calculate_comprehensive_engagement ops (Some items))
             = py_max ops (if ?rates \<noteq> [] then calculate_consistency ops ?rates else PyInt 50)
                 (PyInt 60)"
    using assms(2) unfolding i by (subst engagement_nonempty) (simp add: Let_def)
  show "engagement_consistency (calculate_comprehensive_engagement ops (Some items))
          \<in> {PyInt 60, PyInt 70, PyInt 75}"
    unfolding e by (rule floor_at_60) (rule consistency_of_few [OF lr])
  have p: "performance_consistency (calculate_comprehensive_engagement ops (Some items))
             = py_max ops (calculate_consistency ops ?views) (PyInt 60)"
    using assms(2) unfolding i by (subst engagement_nonempty) (simp add: Let_def)
  have "length ?views = 1 \<or> length ?views = 2"
    using assms unfolding i by (cases rest) auto
  then have "calculate_consistency ops ?views = PyInt 75 \<or> calculate_consistency ops ?views = PyInt 70"
    using consistency_short [of ?views ops] consistency_two [of ?views ops] by auto
  then show "performance_consistency (calculate_comprehensive_engagement ops (Some items))
          \<in> {PyInt 70, PyInt 75}"
    unfolding p by (auto simp add: py_max_def)
qed

text \<open>
  Claim C5, as stated, fails for exactly two data points: the source applies the
  coefficient-of-variation formula only from three values on and returns the constant
  70 for two. For the values 3 and 3 the claimed formula gives 85 (standard deviation
  0), the source gives 70. All values of this computation are integers, so doubles
  compute it as the exact instance does.
\<close>

theorem C5_two_values_counterexample:
  "calculate_consistency exact_ops [3, 3] = PyInt 70
   \<and> consistency_as_claimed exact_ops [3, 3] = PyFloat 85"
proof -
  have m: "exact_mean [3, 3] = 3" by (simp add: exact_mean_def)
  have s: "exact_std [3, 3] = 0" by (simp add: exact_std_def m) (simp add: exact_mean_def)
  have cv: "coefficient_of_variation exact_ops [3, 3] = 0"
    by (simp add: coefficient_of_variation_def exact_ops_def m s)
  have c: "consistency_of_cv exact_ops 0 = 85"
    by (simp add: consistency_of_cv_def exact_ops_def)
  have k: "clamp_20_95 exact_ops 85 = PyFloat 85"
    by (simp add: clamp_20_95_def py_max_def py_min_def exact_ops_def)
  have a: "calculate_consistency exact_ops [3, 3] = PyInt 70"
    by (rule consistency_two) simp
  have b: "consistency_as_claimed exact_ops [3, 3] = PyFloat 85"
    by (simp add: consistency_as_claimed_def cv c k)
  show ?thesis using a b by simp
qed

text \<open>
  Claim C5, amended. With fewer than 2 values the consistency is the default 75; with
  exactly 2 values it is the constant 70; with 3 or more values whose mean equals 0 it
  is 65; with 3 or more values and a mean different from 0 it is the piecewise function
  of cv = (stdev / mean) * 100 (85 - cv/2 below 50, 70 - cv/4 below 100, 40 - cv/10
  otherwise), computed in floating point and clamped to [20, 95]. This holds for every
  floating-point arithmetic, and in each the result is an integer from 20 to 95 or a
  float above 20 and not above 95. In an arithmetic that is exact on integers, 3 or
  more equal positive integer values (view counts; their sum at most \<open>2 ^ 53\<close>) give 85,
  with no division by zero. For a collection of one or two videos the engagement
  consistency is 60, 70 or 75 and the performance consistency is 70 or 75: both are at
  least 60.
\<close>

theorem C5_consistency_amended:
  "(length vals < 2 \<longrightarrow> calculate_consistency ops vals = PyInt 75)
   \<and> (length vals = 2 \<longrightarrow> calculate_consistency ops vals = PyInt 70)
   \<and> (3 \<le> length vals \<and> f_eq ops (np_mean ops vals) (f_of_int ops 0) \<longrightarrow>
        calculate_consistency ops vals = PyInt 65)
   \<and> (3 \<le> length vals \<and> \<not> f_eq ops (np_mean ops vals) (f_of_int ops 0) \<longrightarrow>
        calculate_consistency ops vals
          = clamp_20_95 ops (consistency_of_cv ops (coefficient_of_variation ops vals)))
   \<and> within_20_95 ops (calculate_consistency ops vals)
   \<and> (integer_exact ops \<and> 3 \<le> n \<and> 0 < v \<and> int n * v \<le> 9007199254740992 \<longrightarrow>
        calculate_consistency ops (replicate n (f_of_int ops v)) = PyFloat (f_of_int ops 85))
   \<and> (items \<noteq> [] \<and> length items < 3 \<longrightarrow>
        engagement_consistency (calculate_comprehensive_engagement ops (Some items))
          \<in> {PyInt 60, PyInt 70, PyInt 75}
        \<and> performance_consistency (calculate_comprehensive_engagement ops (Some items))
          \<in> {PyInt 70, PyInt 75})"
  using consistency_short [of vals ops] consistency_two [of vals ops]
    consistency_zero_mean [of vals ops] consistency_formula [of vals ops]
    consistency_within [of ops vals] consistency_equal_integers [of ops n v]
    small_channel_floor [of items ops]
  by blast

theorem C5_consistency_amended_witness:
  "calculate_consistency exact_ops [1, 1, 3, 3] = PyFloat (115 / 2)
   \<and> calculate_consistency exact_ops (replicate 10 1000) = PyFloat 85
   \<and> calculate_consistency exact_ops [5] = PyInt 75
   \<and> calculate_consistency exact_ops [4, 6] = PyInt 70
   \<and> calculate_consistency exact_ops [0, 0, 0] = PyInt 65
   \<and> engagement_consistency (calculate_comprehensive_engagement exact_ops
        (Some [\<lparr>vid_id = Some ''a'', vid_thumbnail_url = None, snippet_title = Some ''t'',
                snippet_thumbnail_url = None, viewCount = Some 100, likeCount = Some 5,
                commentCount = Some 1, content_duration = Some ''PT45S'',
                published_at = Some 0\<rparr>])) = PyInt 75"
proof -
  let ?v = "\<lparr>vid_id = Some ''a'', vid_thumbnail_url = None, snippet_title = Some ''t'',
             snippet_thumbnail_url = None, viewCount = Some 100, likeCount = Some 5,
             commentCount = Some 1, content_duration = Some ''PT45S'',
             published_at = Some 0\<rparr>"
  have e: "f_eq exact_ops x (f_of_int exact_ops 0) = (x = 0)" for x
    by (simp add: exact_ops_def)
  have mn: "np_mean exact_ops xs = exact_mean xs" for xs by (simp add: exact_ops_def)
  have m: "exact_mean [1, 1, 3, 3] = 2" by (simp add: exact_mean_def)
  have sd: "exact_std [1, 1, 3, 3] = 1" by (simp add: exact_std_def m) (simp add: exact_mean_def)
  have cv: "coefficient_of_variation exact_ops [1, 1, 3, 3] = 50"
    by (simp add: coefficient_of_variation_def exact_ops_def m sd)
  have f: "clamp_20_95 exact_ops (consistency_of_cv exact_ops 50) = PyFloat (115 / 2)"
    by (simp add: consistency_of_cv_def clamp_20_95_def py_max_def py_min_def exact_ops_def)
  have z: "exact_mean [0, 0, 0] = 0" by (simp add: exact_mean_def)
  have a: "calculate_consistency exact_ops [1, 1, 3, 3] = PyFloat (115 / 2)"
    using C5_consistency_amended [of "[1, 1, 3, 3]" exact_ops 10 1000 "[?v]"]
    unfolding e mn m cv f by simp
  have "calculate_consistency exact_ops (replicate 10 (f_of_int exact_ops 1000))
          = PyFloat (f_of_int exact_ops 85)"
    using C5_consistency_amended [of "[5]" exact_ops 10 1000 "[?v]"] integer_exact_exact_ops
    by simp
  then have b: "calculate_consistency exact_ops (replicate 10 1000) = PyFloat 85"
    by (simp add: exact_ops_def)
  have c: "calculate_consistency exact_ops [5] = PyInt 75"
    using C5_consistency_amended [of "[5]" exact_ops 10 1000 "[?v]"] by simp
  have d: "calculate_consistency exact_ops [4, 6] = PyInt 70"
    using C5_consistency_amended [of "[4, 6]" exact_ops 10 1000 "[?v]"] by simp
  have g: "calculate_consistency exact_ops [0, 0, 0] = PyInt 65"
    using C5_consistency_amended [of "[0, 0, 0]" exact_ops 10 1000 "[?v]"]
    unfolding e mn z by simp
  have h: "engagement_consistency (calculate_comprehensive_engagement exact_ops (Some [?v]))
             = PyInt 75"
    by (simp add: calculate_comprehensive_engagement_def Let_def stat_def
        calculate_consistency_def py_max_def)
  show ?thesis using a b c d g h by blast
qed

section \<open>Engagement aggregation and the top video\<close>

lemma top_fields:
  "top_performing_video_views (calculate_comprehensive_engagement ops (Some (tv # rest)))
     = stat (viewCount tv)"
  "top_performing_video_likes (calculate_comprehensive_engagement ops (Some (tv # rest)))
     = stat (likeCount tv)"
  "top_performing_video_title (calculate_comprehensive_engagement ops (Some (tv # rest)))
     = (case snippet_title tv of None \<Rightarrow> [] | Some t \<Rightarrow> t)"
  "top_performing_video_thumbnail (calculate_comprehensive_engagement ops (Some (tv # rest)))
     = py_or (vid_thumbnail_url tv) (snippet_thumbnail_url tv)"
  "top_performing_video_id (calculate_comprehensive_engagement ops (Some (tv # rest)))
     = vid_id tv"
  "videos_analyzed (calculate_comprehensive_engagement ops (Some (tv # rest)))
     = Suc (length rest)"
  by (subst engagement_nonempty, simp add: Let_def)+

lemma videos_analyzed_length:
  "videos_analyzed (calculate_comprehensive_engagement ops vd) = length (items_of vd)"
proof (cases vd)
  case None
  then show ?thesis
    by (simp add: calculate_comprehensive_engagement_def items_of_def
        get_default_engagement_metrics_def)
next
  case (Some items)
  then show ?thesis
  proof (cases items)
    case Nil
    then show ?thesis
      using Some
      by (simp add: calculate_comprehensive_engagement_def items_of_def
          get_default_engagement_metrics_def)
  next
    case (Cons tv rest)
    then show ?thesis using Some by (simp add: top_fields items_of_def)
  qed
qed

lemma sorted_head_is_max:
  assumes "sorted_wrt (\<lambda>a b. stat (viewCount b) \<le> stat (viewCount a)) (tv # rest)"
    and "w \<in> set (tv # rest)"
  shows "stat (viewCount w) \<le> stat (viewCount tv)"
  using assms by auto

lemma sort_by_views_sorted:
  "sorted_wrt (\<lambda>a b. stat (viewCount b) \<le> stat (viewCount a)) (sort_by_views items)"
proof -
  have "sorted (map (\<lambda>v. - stat (viewCount v)) (sort_by_views items))"
    unfolding sort_by_views_def by (rule sorted_sort_key)
  then show ?thesis by (simp add: sorted_wrt_map)
qed

lemma performance_defaults:
  "get_performance_metrics_safe ops (Some []) e = get_default_performance_metrics"
  "get_performance_metrics_safe ops None e = get_default_performance_metrics"
  by (simp_all add: get_performance_metrics_safe_def calculate_performance_metrics_enhanced_def)

text \<open>
  Claim C3, as stated, fails on one textual field: for the empty collection the
  title of the top-performing video is the empty string, not \<open>Unknown\<close>.
\<close>

theorem C3_default_title_counterexample:
  "top_performing_video_title (calculate_comprehensive_engagement exact_ops (Some [])) = []
   \<and> top_performing_video_title (calculate_comprehensive_engagement exact_ops (Some []))
       \<noteq> ''Unknown''"
  by (simp add: calculate_comprehensive_engagement_def get_default_engagement_metrics_def)

text \<open>
  Claim C3, amended. For every video collection (also an absent one) the field
  \<open>videos_analyzed\<close> of the engagement aggregation equals the number of items. For the
  empty or absent collection the aggregation and the performance metrics return their
  default structures: every numeric field is the integer zero, the labels
  \<open>engagement_health\<close>, \<open>optimal_video_length\<close> and \<open>performance_trend\<close> are \<open>Unknown\<close>, and
  the title of the top-performing video is the empty string. Both functions are total:
  nothing is raised. All this holds for every floating-point arithmetic.
\<close>

theorem C3_engagement_defaults_amended:
  "videos_analyzed (calculate_comprehensive_engagement ops vd) = length (items_of vd)
   \<and> calculate_comprehensive_engagement ops (Some []) = get_default_engagement_metrics
   \<and> calculate_comprehensive_engagement ops None = get_default_engagement_metrics
   \<and> get_performance_metrics_safe ops (Some []) e = get_default_performance_metrics
   \<and> get_performance_metrics_safe ops None e = get_default_performance_metrics
   \<and> total_recent_views (get_default_engagement_metrics :: 'f engagement_metrics) = 0
   \<and> total_recent_likes (get_default_engagement_metrics :: 'f engagement_metrics) = 0
   \<and> total_recent_comments (get_default_engagement_metrics :: 'f engagement_metrics) = 0
   \<and> total_engagement (get_default_engagement_metrics :: 'f engagement_metrics) = 0
   \<and> avg_engagement_rate (get_default_engagement_metrics :: 'f engagement_metrics) = PyInt 0
   \<and> engagement_consistency (get_default_engagement_metrics :: 'f engagement_metrics)
        = PyInt 0
   \<and> avg_views_per_video (get_default_engagement_metrics :: 'f engagement_metrics) = PyInt 0
   \<and> avg_likes_per_video (get_default_engagement_metrics :: 'f engagement_metrics) = PyInt 0
   \<and> avg_comments_per_video (get_default_engagement_metrics :: 'f engagement_metrics)
        = PyInt 0
   \<and> views_std_dev (get_default_engagement_metrics :: 'f engagement_metrics) = PyInt 0
   \<and> performance_consistency (get_default_engagement_metrics :: 'f engagement_metrics)
        = PyInt 0
   \<and> top_performing_video_views (get_default_engagement_metrics :: 'f engagement_metrics)
        = 0
   \<and> top_performing_video_likes (get_default_engagement_metrics :: 'f engagement_metrics)
        = 0
   \<and> videos_analyzed (get_default_engagement_metrics :: 'f engagement_metrics) = 0
   \<and> engagement_health (get_default_engagement_metrics :: 'f engagement_metrics)
        = ''Unknown''
   \<and> top_performing_video_title (get_default_engagement_metrics :: 'f engagement_metrics)
        = []
   \<and> avg_duration_seconds (get_default_performance_metrics :: 'f performance_metrics)
        = PyInt 0
   \<and> avg_performance_score (get_default_performance_metrics :: 'f performance_metrics)
        = PyInt 0
   \<and> duration_consistency (get_default_performance_metrics :: 'f performance_metrics)
        = PyInt 0
   \<and> estimated_retention_rate (get_default_performance_metrics :: 'f performance_metrics)
        = PyInt 0
   \<and> content_velocity_score (get_default_performance_metrics :: 'f performance_metrics)
        = PyInt 0
   \<and> optimal_video_length (get_default_performance_metrics :: 'f performance_metrics)
        = ''Unknown''
   \<and> performance_trend (get_default_performance_metrics :: 'f performance_metrics)
        = ''Unknown''"
proof -
  have a: "calculate_comprehensive_engagement ops (Some []) = get_default_engagement_metrics"
    "calculate_comprehensive_engagement ops None = get_default_engagement_metrics"
    by (simp_all add: calculate_comprehensive_engagement_def)
  have b: "get_performance_metrics_safe ops (Some []) e = get_default_performance_metrics"
    "get_performance_metrics_safe ops None e = get_default_performance_metrics"
    by (rule performance_defaults)+
  have c: "videos_analyzed (calculate_comprehensive_engagement ops vd) = length (items_of vd)"
    by (rule videos_analyzed_length)
  have d: "total_recent_views (get_default_engagement_metrics :: 'f engagement_metrics) = 0
   \<and> total_recent_likes (get_default_engagement_metrics :: 'f engagement_metrics) = 0
   \<and> total_recent_comments (get_default_engagement_metrics :: 'f engagement_metrics) = 0
   \<and> total_engagement (get_default_engagement_metrics :: 'f engagement_metrics) = 0
   \<and> avg_engagement_rate (get_default_engagement_metrics :: 'f engagement_metrics) = PyInt 0
   \<and> engagement_consistency (get_default_engagement_metrics :: 'f engagement_metrics)
        = PyInt 0
   \<and> avg_views_per_video (get_default_engagement_metrics :: 'f engagement_metrics) = PyInt 0
   \<and> avg_likes_per_video (get_default_engagement_metrics :: 'f engagement_metrics) = PyInt 0
   \<and> avg_comments_per_video (get_default_engagement_metrics :: 'f engagement_metrics)
        = PyInt 0
   \<and> views_std_dev (get_default_engagement_metrics :: 'f engagement_metrics) = PyInt 0
   \<and> performance_consistency (get_default_engagement_metrics :: 'f engagement_metrics)
        = PyInt 0
   \<and> top_performing_video_views (get_default_engagement_metrics :: 'f engagement_metrics)
        = 0
   \<and> top_performing_video_likes (get_default_engagement_metrics :: 'f engagement_metrics)
        = 0
   \<and> videos_analyzed (get_default_engagement_metrics :: 'f engagement_metrics) = 0
   \<and> engagement_health (get_default_engagement_metrics :: 'f engagement_metrics)
        = ''Unknown''
   \<and> top_performing_video_title (get_default_engagement_metrics :: 'f engagement_metrics)
        = []"
    by (simp add: get_default_engagement_metrics_def)
  have f: "avg_duration_seconds (get_default_performance_metrics :: 'f performance_metrics)
        = PyInt 0
   \<and> avg_performance_score (get_default_performance_metrics :: 'f performance_metrics)
        = PyInt 0
   \<and> duration_consistency (get_default_performance_metrics :: 'f performance_metrics)
        = PyInt 0
   \<and> estimated_retention_rate (get_default_performance_metrics :: 'f performance_metrics)
        = PyInt 0
   \<and> content_velocity_score (get_default_performance_metrics :: 'f performance_metrics)
        = PyInt 0
   \<and> optimal_video_length (get_default_performance_metrics :: 'f performance_metrics)
        = ''Unknown''
   \<and> performance_trend (get_default_performance_metrics :: 'f performance_metrics)
        = ''Unknown''"
    by (simp add: get_default_performance_metrics_def)
  show ?thesis
    using a b c d f by blast
qed

theorem C3_engagement_defaults_amended_witness:
  "videos_analyzed (calculate_comprehensive_engagement exact_ops
      (Some [\<lparr>vid_id = Some ''a'', vid_thumbnail_url = None, snippet_title = Some ''t'',
              snippet_thumbnail_url = None, viewCount = Some 100, likeCount = Some 5,
              commentCount = Some 1, content_duration = Some ''PT45S'', published_at = Some 0\<rparr>,
             \<lparr>vid_id = Some ''b'', vid_thumbnail_url = None, snippet_title = None,
              snippet_thumbnail_url = None, viewCount = None, likeCount = None,
              commentCount = None, content_duration = None, published_at = None\<rparr>])) = 2
   \<and> videos_analyzed (calculate_comprehensive_engagement exact_ops (Some [])) = 0
   \<and> performance_trend
        (get_performance_metrics_safe exact_ops (Some []) get_default_engagement_metrics)
        = ''Unknown''"
proof -
  let ?vs = "[\<lparr>vid_id = Some ''a'', vid_thumbnail_url = None, snippet_title = Some ''t'',
              snippet_thumbnail_url = None, viewCount = Some 100, likeCount = Some 5,
              commentCount = Some 1, content_duration = Some ''PT45S'', published_at = Some 0\<rparr>,
             \<lparr>vid_id = Some ''b'', vid_thumbnail_url = None, snippet_title = None,
              snippet_thumbnail_url = None, viewCount = None, likeCount = None,
              commentCount = None, content_duration = None, published_at = None\<rparr>]"
  have "videos_analyzed (calculate_comprehensive_engagement exact_ops (Some ?vs))
          = length (items_of (Some ?vs))"
    using C3_engagement_defaults_amended [of exact_ops "Some ?vs" get_default_engagement_metrics]
    by blast
  then have a: "videos_analyzed (calculate_comprehensive_engagement exact_ops (Some ?vs)) = 2"
    by (simp add: items_of_def)
  have "videos_analyzed (calculate_comprehensive_engagement exact_ops (Some []))
          = length (items_of (Some []))"
    using C3_engagement_defaults_amended [of exact_ops "Some []" get_default_engagement_metrics]
    by blast
  then have b: "videos_analyzed (calculate_comprehensive_engagement exact_ops (Some [])) = 0"
    by (simp add: items_of_def)
  have "get_performance_metrics_safe exact_ops (Some []) get_default_engagement_metrics
          = get_default_performance_metrics
        \<and> performance_trend (get_default_performance_metrics :: real performance_metrics)
            = ''Unknown''"
    using C3_engagement_defaults_amended [of exact_ops "Some []" get_default_engagement_metrics]
    by blast
  then have c: "performance_trend
        (get_performance_metrics_safe exact_ops (Some []) get_default_engagement_metrics)
        = ''Unknown''"
    by simp
  show ?thesis using a b c by blast
qed

text \<open>
  Claim C4. For every non-empty collection the top-performing-video fields (views,
  likes, title, thumbnail, id) of the engagement aggregation are read from the first
  element alone. When the collection is sorted descending by view count, as
  \<open>get_channel_videos_safe\<close> delivers it, the reported views are the largest view count
  of the collection. This holds for every floating-point arithmetic.
\<close>

theorem C4_top_video_is_first:
  "top_performing_video_views (calculate_comprehensive_engagement ops (Some (tv # rest)))
      = stat (viewCount tv)
   \<and> top_performing_video_likes (calculate_comprehensive_engagement ops (Some (tv # rest)))
      = stat (likeCount tv)
   \<and> top_performing_video_title (calculate_comprehensive_engagement ops (Some (tv # rest)))
      = (case snippet_title tv of None \<Rightarrow> [] | Some t \<Rightarrow> t)
   \<and> top_performing_video_thumbnail (calculate_comprehensive_engagement ops (Some (tv # rest)))
      = py_or (vid_thumbnail_url tv) (snippet_thumbnail_url tv)
   \<and> top_performing_video_id (calculate_comprehensive_engagement ops (Some (tv # rest)))
      = vid_id tv
   \<and> (sorted_wrt (\<lambda>a b. stat (viewCount b) \<le> stat (viewCount a)) (tv # rest)
        \<and> w \<in> set (tv # rest) \<longrightarrow>
        stat (viewCount w)
          \<le> top_performing_video_views
               (calculate_comprehensive_engagement ops (Some (tv # rest))))
   \<and> sorted_wrt (\<lambda>a b. stat (viewCount b) \<le> stat (viewCount a)) (sort_by_views items)"
proof -
  note f = top_fields [of ops tv rest]
  have m: "sorted_wrt (\<lambda>a b. stat (viewCount b) \<le> stat (viewCount a)) (tv # rest)
        \<and> w \<in> set (tv # rest) \<longrightarrow>
        stat (viewCount w)
          \<le> top_performing_video_views
               (calculate_comprehensive_engagement ops (Some (tv # rest)))"
    using sorted_head_is_max [of tv rest w] f by simp
  have s: "sorted_wrt (\<lambda>a b. stat (viewCount b) \<le> stat (viewCount a)) (sort_by_views items)"
    by (rule sort_by_views_sorted)
  show ?thesis
    using f m s by blast
qed

theorem C4_top_video_is_first_witness:
  "top_performing_video_views (calculate_comprehensive_engagement exact_ops
      (Some [\<lparr>vid_id = Some ''a'', vid_thumbnail_url = Some [], snippet_title = Some ''first'',
              snippet_thumbnail_url = Some ''u'', viewCount = Some 900, likeCount = Some 5,
              commentCount = Some 1, content_duration = Some ''PT45S'', published_at = Some 0\<rparr>,
             \<lparr>vid_id = Some ''b'', vid_thumbnail_url = None, snippet_title = Some ''second'',
              snippet_thumbnail_url = None, viewCount = Some 100, likeCount = Some 50,
              commentCount = None, content_duration = None, published_at = None\<rparr>])) = 900
   \<and> top_performing_video_title (calculate_comprehensive_engagement exact_ops
      (Some [\<lparr>vid_id = Some ''a'', vid_thumbnail_url = Some [], snippet_title = Some ''first'',
              snippet_thumbnail_url = Some ''u'', viewCount = Some 900, likeCount = Some 5,
              commentCount = Some 1, content_duration = Some ''PT45S'', published_at = Some 0\<rparr>,
             \<lparr>vid_id = Some ''b'', vid_thumbnail_url = None, snippet_title = Some ''second'',
              snippet_thumbnail_url = None, viewCount = Some 100, likeCount = Some 50,
              commentCount = None, content_duration = None, published_at = None\<rparr>])) = ''first''
   \<and> top_performing_video_thumbnail (calculate_comprehensive_engagement exact_ops
      (Some [\<lparr>vid_id = Some ''a'', vid_thumbnail_url = Some [], snippet_title = Some ''first'',
              snippet_thumbnail_url = Some ''u'', viewCount = Some 900, likeCount = Some 5,
              commentCount = Some 1, content_duration = Some ''PT45S'', published_at = Some 0\<rparr>,
             \<lparr>vid_id = Some ''b'', vid_thumbnail_url = None, snippet_title = Some ''second'',
              snippet_thumbnail_url = None, viewCount = Some 100, likeCount = Some 50,
              commentCount = None, content_duration = None, published_at = None\<rparr>])) = Some ''u''
   \<and> stat (Some 100) \<le> top_performing_video_views (calculate_comprehensive_engagement exact_ops
      (Some [\<lparr>vid_id = Some ''a'', vid_thumbnail_url = Some [], snippet_title = Some ''first'',
              snippet_thumbnail_url = Some ''u'', viewCount = Some 900, likeCount = Some 5,
              commentCount = Some 1, content_duration = Some ''PT45S'', published_at = Some 0\<rparr>,
             \<lparr>vid_id = Some ''b'', vid_thumbnail_url = None, snippet_title = Some ''second'',
              snippet_thumbnail_url = None, viewCount = Some 100, likeCount = Some 50,
              commentCount = None, content_duration = None, published_at = None\<rparr>]))"
proof -
  let ?a = "\<lparr>vid_id = Some ''a'', vid_thumbnail_url = Some [], snippet_title = Some ''first'',
              snippet_thumbnail_url = Some ''u'', viewCount = Some 900, likeCount = Some 5,
              commentCount = Some 1, content_duration = Some ''PT45S'', published_at = Some 0\<rparr>"
  let ?b = "\<lparr>vid_id = Some ''b'', vid_thumbnail_url = None, snippet_title = Some ''second'',
              snippet_thumbnail_url = None, viewCount = Some 100, likeCount = Some 50,
              commentCount = None, content_duration = None, published_at = None\<rparr>"
  have s: "sorted_wrt (\<lambda>a b. stat (viewCount b) \<le> stat (viewCount a)) [?a, ?b] \<and> ?b \<in> set [?a, ?b]"
    by (simp add: stat_def)
  note h = C4_top_video_is_first [of exact_ops ?a "[?b]" ?b "[?b, ?a]"]
  have v: "top_performing_video_views (calculate_comprehensive_engagement exact_ops (Some [?a, ?b]))
             = 900"
    using h by (simp add: stat_def)
  have t: "top_performing_video_title (calculate_comprehensive_engagement exact_ops (Some [?a, ?b]))
             = ''first''"
    using h by simp
  have u: "top_performing_video_thumbnail
             (calculate_comprehensive_engagement exact_ops (Some [?a, ?b])) = Some ''u''"
    using h by (simp add: py_or_def)
  have m: "stat (Some 100)
             \<le> top_performing_video_views
                  (calculate_comprehensive_engagement exact_ops (Some [?a, ?b]))"
    using h s by simp
  show ?thesis using v t u m by blast
qed

section \<open>Number of insights and recommendations\<close>

lemma rule_based_three:
  "length (generate_enhanced_rule_based_insights ops subs top_video_views
             engagement_rate optimal_length) = 3"
  by (simp add: generate_enhanced_rule_based_insights_def Let_def)

lemma recommendations_three:
  "length (generate_recommendations_enhanced ops subs health_score content_diversity)
     = 3"
  by (simp add: generate_recommendations_enhanced_def Let_def)

lemma groq_empty_or_three:
  "generate_groq_insights_admin replies = []
     \<or> 3 \<le> length (generate_groq_insights_admin replies)"
  by (induction replies rule: generate_groq_insights_admin.induct) simp_all

lemma insights_at_least_three:
  "3 \<le> length (generate_ai_insights_enhanced ops replies subs top_video_views
                  engagement_rate optimal_length)"
  by (simp add: generate_ai_insights_enhanced_def Let_def rule_based_three)

lemma first_reply_returned:
  "3 \<le> length insights \<Longrightarrow>
     generate_ai_insights_enhanced ops (Insights_found insights # more_keys) subs
         top_video_views engagement_rate optimal_length = insights"
  by (auto simp add: generate_ai_insights_enhanced_def Let_def)

text \<open>
  Claim C2 on the failing input: the provider answers the first key with four insights.
  The insights generator returns all four, where the claim promises three; the
  recommendations generator, which pads and cuts, returns exactly three for every input,
  and so does the rule-based insights generator that takes over when no key yields three
  insights. The thresholds of the generators play no part in this, so it holds for every
  floating-point arithmetic.
\<close>

theorem C2_insights_not_truncated:
  "generate_ai_insights_enhanced ops
       [Insights_found
          [\<lparr>insight_type = ''t1'', title = ''first'', priority = ''high''\<rparr>,
           \<lparr>insight_type = ''t2'', title = ''second'', priority = ''high''\<rparr>,
           \<lparr>insight_type = ''t3'', title = ''third'', priority = ''low''\<rparr>,
           \<lparr>insight_type = ''t4'', title = ''fourth'', priority = ''low''\<rparr>]]
       subs top_video_views engagement_rate optimal_length
     = [\<lparr>insight_type = ''t1'', title = ''first'', priority = ''high''\<rparr>,
        \<lparr>insight_type = ''t2'', title = ''second'', priority = ''high''\<rparr>,
        \<lparr>insight_type = ''t3'', title = ''third'', priority = ''low''\<rparr>,
        \<lparr>insight_type = ''t4'', title = ''fourth'', priority = ''low''\<rparr>]
   \<and> length (generate_ai_insights_enhanced ops
       [Insights_found
          [\<lparr>insight_type = ''t1'', title = ''first'', priority = ''high''\<rparr>,
           \<lparr>insight_type = ''t2'', title = ''second'', priority = ''high''\<rparr>,
           \<lparr>insight_type = ''t3'', title = ''third'', priority = ''low''\<rparr>,
           \<lparr>insight_type = ''t4'', title = ''fourth'', priority = ''low''\<rparr>]]
       subs top_video_views engagement_rate optimal_length) = 4
   \<and> length (insights_as_claimed
       [\<lparr>insight_type = ''t1'', title = ''first'', priority = ''high''\<rparr>,
        \<lparr>insight_type = ''t2'', title = ''second'', priority = ''high''\<rparr>,
        \<lparr>insight_type = ''t3'', title = ''third'', priority = ''low''\<rparr>,
        \<lparr>insight_type = ''t4'', title = ''fourth'', priority = ''low''\<rparr>]
       (generate_enhanced_rule_based_insights ops subs top_video_views engagement_rate
          optimal_length)) = 3
   \<and> length (generate_recommendations_enhanced ops subs health_score content_diversity)
       = 3
   \<and> length (generate_enhanced_rule_based_insights ops subs top_video_views
               engagement_rate optimal_length) = 3
   \<and> 3 \<le> length (generate_ai_insights_enhanced ops replies subs top_video_views
                    engagement_rate optimal_length)"
proof -
  let ?four = "[\<lparr>insight_type = ''t1'', title = ''first'', priority = ''high''\<rparr>,
        \<lparr>insight_type = ''t2'', title = ''second'', priority = ''high''\<rparr>,
        \<lparr>insight_type = ''t3'', title = ''third'', priority = ''low''\<rparr>,
        \<lparr>insight_type = ''t4'', title = ''fourth'', priority = ''low''\<rparr>]"
  have a: "generate_ai_insights_enhanced ops [Insights_found ?four] subs top_video_views
             engagement_rate optimal_length = ?four"
    by (rule first_reply_returned) simp
  have b: "length ?four = 4" by simp
  have c: "length (insights_as_claimed ?four
             (generate_enhanced_rule_based_insights ops subs top_video_views
                engagement_rate optimal_length)) = 3"
    by (simp add: insights_as_claimed_def)
  show ?thesis
    unfolding a
    using b c recommendations_three [of ops subs health_score content_diversity]
      rule_based_three [of ops subs top_video_views engagement_rate optimal_length]
      insights_at_least_three [of ops replies subs top_video_views engagement_rate
        optimal_length]
    by simp
qed

theorem C2_insights_not_truncated_witness:
  "length (generate_ai_insights_enhanced exact_ops
       [No_insights,
        Insights_found
          [\<lparr>insight_type = ''t1'', title = ''first'', priority = ''high''\<rparr>,
           \<lparr>insight_type = ''t2'', title = ''second'', priority = ''high''\<rparr>],
        Insights_found
          [\<lparr>insight_type = ''t1'', title = ''first'', priority = ''high''\<rparr>,
           \<lparr>insight_type = ''t2'', title = ''second'', priority = ''high''\<rparr>,
           \<lparr>insight_type = ''t3'', title = ''third'', priority = ''low''\<rparr>,
           \<lparr>insight_type = ''t4'', title = ''fourth'', priority = ''low''\<rparr>,
           \<lparr>insight_type = ''t5'', title = ''fifth'', priority = ''low''\<rparr>]]
       (PyInt 1000000) (PyInt 50000000) (PyInt 0) ''Medium (8-15 minutes)'') = 5
   \<and> length (generate_recommendations_enhanced exact_ops (PyInt 500) (PyInt 40) (PyInt 10)) = 3
   \<and> length (generate_ai_insights_enhanced exact_ops
       [Insights_found
          [\<lparr>insight_type = ''t1'', title = ''first'', priority = ''high''\<rparr>,
           \<lparr>insight_type = ''t2'', title = ''second'', priority = ''high''\<rparr>,
           \<lparr>insight_type = ''t3'', title = ''third'', priority = ''low''\<rparr>,
           \<lparr>insight_type = ''t4'', title = ''fourth'', priority = ''low''\<rparr>]]
       (PyInt 1000000) (PyInt 50000000) (PyInt 0) ''Medium (8-15 minutes)'') = 4"
proof -
  note inst = C2_insights_not_truncated
    [of exact_ops "PyInt 1000000" "PyInt 50000000" "PyInt 0" "''Medium (8-15 minutes)''"
        "PyInt 40" "PyInt 10" "[]"]
  note inst2 = C2_insights_not_truncated
    [of exact_ops "PyInt 500" "PyInt 50000000" "PyInt 0" "''Medium (8-15 minutes)''"
        "PyInt 40" "PyInt 10" "[]"]
  have a: "length (generate_ai_insights_enhanced exact_ops
       [No_insights,
        Insights_found
          [\<lparr>insight_type = ''t1'', title = ''first'', priority = ''high''\<rparr>,
           \<lparr>insight_type = ''t2'', title = ''second'', priority = ''high''\<rparr>],
        Insights_found
          [\<lparr>insight_type = ''t1'', title = ''first'', priority = ''high''\<rparr>,
           \<lparr>insight_type = ''t2'', title = ''second'', priority = ''high''\<rparr>,
           \<lparr>insight_type = ''t3'', title = ''third'', priority = ''low''\<rparr>,
           \<lparr>insight_type = ''t4'', title = ''fourth'', priority = ''low''\<rparr>,
           \<lparr>insight_type = ''t5'', title = ''fifth'', priority = ''low''\<rparr>]]
       (PyInt 1000000) (PyInt 50000000) (PyInt 0) ''Medium (8-15 minutes)'') = 5"
    by (simp add: generate_ai_insights_enhanced_def)
  have b: "length (generate_recommendations_enhanced exact_ops (PyInt 500) (PyInt 40)
             (PyInt 10)) = 3"
    using inst2 by blast
  have c: "length (generate_ai_insights_enhanced exact_ops
       [Insights_found
          [\<lparr>insight_type = ''t1'', title = ''first'', priority = ''high''\<rparr>,
           \<lparr>insight_type = ''t2'', title = ''second'', priority = ''high''\<rparr>,
           \<lparr>insight_type = ''t3'', title = ''third'', priority = ''low''\<rparr>,
           \<lparr>insight_type = ''t4'', title = ''fourth'', priority = ''low''\<rparr>]]
       (PyInt 1000000) (PyInt 50000000) (PyInt 0) ''Medium (8-15 minutes)'') = 4"
    using inst by blast
  show ?thesis using a b c by blast
qed

section \<open>Composite metrics\<close>










end
